theory Spec2Isabelle
  imports Complex_Main "HOL-Library.Signed_Division"
begin

section \<open>The memory and error model of the CUSUM utilities\<close>

text \<open>
  The C sources (\<^verbatim>\<open>utils.c\<close>, \<^verbatim>\<open>utils.h\<close>, \<^verbatim>\<open>wavelet_filter.c\<close>) work on
  heap objects through pointers and report failures through the global \<^verbatim>\<open>errorcode\<close>.
  The embedding passes an explicit program state. A pointer is a block identifier, with
  \<open>0\<close> for \<^verbatim>\<open>NULL\<close>; a pointer into an array is a block together with an element
  index. A dereference of \<^verbatim>\<open>NULL\<close> or of a block that is not live, an integer
  division by zero, the overflow of an \<^verbatim>\<open>int64_t\<close> addition or subtraction, and the
  conversion to an integer type of a \<^verbatim>\<open>double\<close> that is not a number or lies
  outside the type, are undefined behaviour in C and are results of the model
  (\<open>Inl\<close> of a \<open>fault\<close>). A finite \<^verbatim>\<open>double\<close> is a \<open>real\<close>, and every
  operation on \<^verbatim>\<open>double\<close> rounds its exact result (see the numeric helpers). The
  integer types are \<open>int\<close>, with the narrowing and the range of the C type written out
  where the source computes with them. Struct fields carry the struct's name as a prefix
  where the plain C name is shared by several structs or by a HOL constant.
\<close>

type_synonym addr = nat

abbreviation NULL :: addr where
  "NULL \<equiv> 0"

datatype fault =
  NullDereference | InvalidPointer | DivisionByZero | InvalidConversion | SignedOverflow

subsection \<open>Constants of \<^verbatim>\<open>utils.h\<close>\<close>

definition HEAD :: int where "HEAD = - 1000"
definition STRLENGTH :: nat where "STRLENGTH = 1024"

definition CHIMERA :: int where "CHIMERA = 0"
definition BINARY :: int where "BINARY = 1"

definition ERR_BITS :: int where "ERR_BITS = 1"
definition ERR_MEM :: int where "ERR_MEM = 2"
definition ERR_FILE :: int where "ERR_FILE = 3"
definition ERR_DATA :: int where "ERR_DATA = 4"
definition ERR_STRING :: int where "ERR_STRING = 5"

subsection \<open>Structs\<close>

record edge =
  edge_location :: int
  edge_type :: int
  edge_local_stdev :: real
  edge_local_baseline :: real
  edge_next :: addr

record cusumlevel =
  level_current :: real
  level_stdev :: real
  level_maxdeviation :: real
  level_maxdevindex :: int
  raw_level_ecd :: real
  fitted_level_ecd :: real
  level_length :: int
  level_next :: addr

record chimera =
  samplerate :: real
  TIAgain :: real
  preADCgain :: real
  currentoffset :: real
  ADCvref :: real
  ADCbits :: int

record input_file =
  data_file :: addr
  datafilename :: string
  timestamp :: real
  file_length :: int
  file_offset :: int
  daqsetup :: addr
  file_next :: addr

record signal_struct =
  paddedsignal :: addr
  signal :: "addr \<times> int"
  rawsignal :: addr

record baseline_struct =
  bl_histogram :: addr
  bl_current :: addr
  bl_numbins :: int
  bl_baseline_min :: real
  bl_baseline_max :: real
  bl_range :: real
  bl_delta :: real
  bl_mean :: real
  bl_stdev :: real
  bl_amplitude :: real

record binary_decoder =
  header_bytes :: int
  n_arrays :: int
  data_size :: int

record configuration =
  readlength :: int
  data_order :: int
  event_order :: int
  baseline_min :: real
  baseline_max :: real
  cfg_datatype :: int

text \<open>
  Of \<^verbatim>\<open>struct Binary_Decoder_Struct\<close> and \<^verbatim>\<open>struct Configuration\<close> only the fields
  read by the functions below are kept. The field \<^verbatim>\<open>signal\<close> of a
  \<^verbatim>\<open>signal_struct\<close> points into the block of \<^verbatim>\<open>paddedsignal\<close>: it is the pair of
  that block and an element index.
\<close>

definition zero_edge :: edge where
  "zero_edge = \<lparr>edge_location = 0, edge_type = 0, edge_local_stdev = 0,
     edge_local_baseline = 0, edge_next = NULL\<rparr>"

definition zero_level :: cusumlevel where
  "zero_level = \<lparr>level_current = 0, level_stdev = 0, level_maxdeviation = 0,
     level_maxdevindex = 0, raw_level_ecd = 0, fitted_level_ecd = 0, level_length = 0,
     level_next = NULL\<rparr>"

definition zero_chimera :: chimera where
  "zero_chimera = \<lparr>samplerate = 0, TIAgain = 0, preADCgain = 0, currentoffset = 0,
     ADCvref = 0, ADCbits = 0\<rparr>"

definition zero_input_file :: input_file where
  "zero_input_file = \<lparr>data_file = NULL, datafilename = [], timestamp = 0, file_length = 0,
     file_offset = 0, daqsetup = NULL, file_next = NULL\<rparr>"

definition zero_signal :: signal_struct where
  "zero_signal = \<lparr>paddedsignal = NULL, signal = (NULL, 0), rawsignal = NULL\<rparr>"

definition zero_baseline :: baseline_struct where
  "zero_baseline = \<lparr>bl_histogram = NULL, bl_current = NULL, bl_numbins = 0,
     bl_baseline_min = 0, bl_baseline_max = 0, bl_range = 0, bl_delta = 0, bl_mean = 0,
     bl_stdev = 0, bl_amplitude = 0\<rparr>"

text \<open>Object sizes in bytes on an LP64 target, for the \<^verbatim>\<open>sizeof\<close> expressions.\<close>

definition sizeof_edge :: int where "sizeof_edge = 40"
definition sizeof_cusumlevel :: int where "sizeof_cusumlevel = 64"
definition sizeof_chimera :: int where "sizeof_chimera = 48"
definition sizeof_input_file :: int where "sizeof_input_file = 1072"
definition sizeof_signal_struct :: int where "sizeof_signal_struct = 24"
definition sizeof_baseline_struct :: int where "sizeof_baseline_struct = 80"
definition sizeof_double :: int where "sizeof_double = 8"
definition sizeof_uint16 :: int where "sizeof_uint16 = 2"

subsection \<open>Program state\<close>

text \<open>
  A settings file is kept as the list of its lines, each line as what the parsing loop of
  \<^verbatim>\<open>add_input_file\<close> obtains from it: the first \<^verbatim>\<open>strtok\<close> token (the key), and
  the readings of the second token by \<^verbatim>\<open>strtod\<close> and by \<^verbatim>\<open>strtol\<close>. A file on
  disk has such a list of lines and a size in bytes.
\<close>

record settings_line =
  key :: string
  double_value :: real
  long_value :: int

record disk_file =
  file_lines :: "settings_line list"
  file_size :: int

record state =
  errorcode :: int
  avail :: nat
  brk :: addr
  zero_size_null :: bool
  blocks :: "addr \<rightharpoonup> nat"
  edges :: "addr \<Rightarrow> edge"
  levels :: "addr \<Rightarrow> cusumlevel"
  chimeras :: "addr \<Rightarrow> chimera"
  input_files :: "addr \<Rightarrow> input_file"
  signals :: "addr \<Rightarrow> signal_struct"
  baselines :: "addr \<Rightarrow> baseline_struct"
  doubles :: "addr \<Rightarrow> real list"
  disk :: "string \<rightharpoonup> disk_file"
  open_streams :: "addr \<rightharpoonup> string"

text \<open>
  \<open>errorcode\<close> is the global of \<^verbatim>\<open>utils.c\<close>. The other fields are the environment:
  \<open>avail\<close> is the number of bytes the allocator can still hand out, \<open>brk\<close> the
  last block identifier handed out, \<open>zero_size_null\<close> the implementation-defined choice
  of the C library to answer a request for zero bytes with \<^verbatim>\<open>NULL\<close>, \<open>blocks\<close> the
  live blocks with their sizes in bytes, \<open>edges\<close> to \<open>baselines\<close> the contents of
  the blocks read at each struct type, \<open>doubles\<close> their contents read as arrays of
  \<^verbatim>\<open>double\<close>, \<open>disk\<close> the files by name and \<open>open_streams\<close> the
  open \<^verbatim>\<open>FILE\<close> handles.
\<close>

definition access :: "state \<Rightarrow> addr \<Rightarrow> fault option" where
  "access s p =
     (if p = NULL then Some NullDereference
      else if blocks s p = None then Some InvalidPointer
      else None)"

text \<open>
  An assignment through a pointer, \<^verbatim>\<open>p->field = v\<close>, is a store into the contents of
  the block \<open>p\<close> at the struct type of \<open>p\<close>.
\<close>

definition edge_store :: "addr \<Rightarrow> (edge \<Rightarrow> edge) \<Rightarrow> state \<Rightarrow> state" where
  "edge_store p f s = s\<lparr>edges := (edges s)(p := f (edges s p))\<rparr>"

definition level_store :: "addr \<Rightarrow> (cusumlevel \<Rightarrow> cusumlevel) \<Rightarrow> state \<Rightarrow> state" where
  "level_store p f s = s\<lparr>levels := (levels s)(p := f (levels s p))\<rparr>"

definition chimera_store :: "addr \<Rightarrow> (chimera \<Rightarrow> chimera) \<Rightarrow> state \<Rightarrow> state" where
  "chimera_store p f s = s\<lparr>chimeras := (chimeras s)(p := f (chimeras s p))\<rparr>"

definition file_store :: "addr \<Rightarrow> (input_file \<Rightarrow> input_file) \<Rightarrow> state \<Rightarrow> state" where
  "file_store p f s = s\<lparr>input_files := (input_files s)(p := f (input_files s p))\<rparr>"

definition baseline_store ::
    "addr \<Rightarrow> (baseline_struct \<Rightarrow> baseline_struct) \<Rightarrow> state \<Rightarrow> state" where
  "baseline_store p f s = s\<lparr>baselines := (baselines s)(p := f (baselines s p))\<rparr>"

definition signal_store :: "addr \<Rightarrow> (signal_struct \<Rightarrow> signal_struct) \<Rightarrow> state \<Rightarrow> state" where
  "signal_store p f s = s\<lparr>signals := (signals s)(p := f (signals s p))\<rparr>"

subsection \<open>The C library: \<^verbatim>\<open>calloc\<close>, \<^verbatim>\<open>free\<close>, \<^verbatim>\<open>fopen64\<close>, \<^verbatim>\<open>fclose\<close>\<close>

text \<open>
  \<^verbatim>\<open>calloc\<close> takes its arguments as \<^verbatim>\<open>size_t\<close>, so a negative count is a huge one.
  It fails when the product overflows or exceeds the bytes available, and, where the
  library chooses so, on a request of zero bytes. A new block reads as zero at every type.
\<close>

definition new_block :: "addr \<Rightarrow> nat \<Rightarrow> state \<Rightarrow> state" where
  "new_block p n s =
     s\<lparr>avail := avail s - n, brk := p, blocks := (blocks s)(p \<mapsto> n),
       edges := (edges s)(p := zero_edge),
       levels := (levels s)(p := zero_level),
       chimeras := (chimeras s)(p := zero_chimera),
       input_files := (input_files s)(p := zero_input_file),
       signals := (signals s)(p := zero_signal),
       baselines := (baselines s)(p := zero_baseline),
       doubles := (doubles s)(p := replicate (n div 8) 0)\<rparr>"

definition calloc :: "int \<Rightarrow> int \<Rightarrow> state \<Rightarrow> addr \<times> state" where
  "calloc num size' s =
     (let n = nat (num mod 2 ^ 64) * nat (size' mod 2 ^ 64) in
      if 2 ^ 64 \<le> n \<or> avail s < n \<or> (n = 0 \<and> zero_size_null s) then (NULL, s)
      else (Suc (brk s), new_block (Suc (brk s)) n s))"

definition free :: "addr \<Rightarrow> state \<Rightarrow> state" where
  "free p s =
     (case blocks s p of
        None \<Rightarrow> s
      | Some n \<Rightarrow> s\<lparr>avail := avail s + n, blocks := (blocks s)(p := None)\<rparr>)"

definition fopen64 :: "string \<Rightarrow> state \<Rightarrow> addr \<times> state" where
  "fopen64 fname s =
     (case disk s fname of
        None \<Rightarrow> (NULL, s)
      | Some f \<Rightarrow>
          (let p = Suc (brk s) in
           (p, s\<lparr>brk := p, open_streams := (open_streams s)(p \<mapsto> fname)\<rparr>)))"

definition fclose :: "addr \<Rightarrow> state \<Rightarrow> state" where
  "fclose p s = s\<lparr>open_streams := (open_streams s)(p := None)\<rparr>"

subsection \<open>The checked allocation layer\<close>

definition fatal :: "int \<Rightarrow> state \<Rightarrow> state" where
  "fatal error s = s\<lparr>errorcode := error\<rparr>"

definition fopen64_and_check :: "string \<Rightarrow> string \<Rightarrow> int \<Rightarrow> state \<Rightarrow> addr \<times> state" where
  "fopen64_and_check fname mode caller s =
     (case fopen64 fname s of
        (buffer, s1) \<Rightarrow> if buffer = NULL then (buffer, fatal ERR_FILE s1) else (buffer, s1))"

definition calloc_and_check :: "int \<Rightarrow> int \<Rightarrow> string \<Rightarrow> state \<Rightarrow> addr \<times> state" where
  "calloc_and_check num size' msg s =
     (case calloc num size' s of
        (block, s1) \<Rightarrow> if block = NULL then (block, fatal ERR_MEM s1) else (block, s1))"

subsection \<open>Numeric helpers\<close>

text \<open>
  Arithmetic on \<^verbatim>\<open>double\<close> is modelled with its rounding: \<open>to_double\<close> gives the
  nearest number with a significand of 53 bits (the treatment of ties and the limits of
  the exponent are left out), and an operation on \<^verbatim>\<open>double\<close>, the conversion of an
  integer to \<^verbatim>\<open>double\<close> included, returns the rounded exact result. The functions
  \<^verbatim>\<open>exp\<close>, \<^verbatim>\<open>log\<close> and \<^verbatim>\<open>pow\<close> of the C library are taken as correctly
  rounded. A \<^verbatim>\<open>double\<close> that is not a finite number (an infinity or a NaN) is no
  value of the model; where one can arise, the result of the function says so, or the
  text at the function does.
\<close>

definition to_double :: "real \<Rightarrow> real" where
  "to_double x =
     (if x = 0 then 0
      else (let u = 2 powr (of_int \<lfloor>log 2 \<bar>x\<bar>\<rfloor> - 52) in of_int (round (x / u)) * u))"

text \<open>
  The conversion of a \<^verbatim>\<open>double\<close> to an integer type discards the fraction; it is
  undefined when the result is not a value of the type (\<^verbatim>\<open>int64_t\<close>, and the
  \<^verbatim>\<open>int\<close> of 32 bits).
\<close>

definition truncate :: "real \<Rightarrow> int" where
  "truncate x = (if 0 \<le> x then \<lfloor>x\<rfloor> else \<lceil>x\<rceil>)"

definition int64_range :: "int \<Rightarrow> bool" where
  "int64_range k = (- (2 ^ 63) \<le> k \<and> k < 2 ^ 63)"

definition double_to_int64 :: "real \<Rightarrow> fault + int" where
  "double_to_int64 x =
     (if int64_range (truncate x) then Inr (truncate x) else Inl InvalidConversion)"


definition my_min :: "real \<Rightarrow> real \<Rightarrow> real" where
  "my_min a b = (if a < b then a else b)"

definition my_max :: "real \<Rightarrow> real \<Rightarrow> real" where
  "my_max a b = (if a > b then a else b)"

definition intmin :: "int \<Rightarrow> int \<Rightarrow> int" where
  "intmin a b = (if a < b then a else b)"

definition intmax :: "int \<Rightarrow> int \<Rightarrow> int" where
  "intmax a b = (if a > b then a else b)"

section \<open>Edge lists\<close>

partial_function (option) count_edges_loop ::
    "state \<Rightarrow> addr \<Rightarrow> int \<Rightarrow> (fault + int) option" where
  "count_edges_loop s current_edge count =
     (if current_edge = NULL then Some (Inr count)
      else if blocks s current_edge = None then Some (Inl InvalidPointer)
      else count_edges_loop s (edge_next (edges s current_edge)) (count + 1))"

definition count_edges :: "addr \<Rightarrow> state \<Rightarrow> (fault + int) option" where
  "count_edges current_edge s = count_edges_loop s current_edge 0"

definition initialize_edges :: "state \<Rightarrow> fault + (addr \<times> state)" where
  "initialize_edges s =
     (case calloc_and_check 1 sizeof_edge ''Cannot initialize edge list'' s of
        (head, s1) \<Rightarrow>
          if errorcode s1 \<noteq> 0 then Inr (NULL, s1)
          else
            (case access s1 head of
               Some f \<Rightarrow> Inl f
             | None \<Rightarrow>
                 Inr (head, edge_store head
                   (\<lambda>e. e\<lparr>edge_next := NULL, edge_location := 0, edge_type := HEAD\<rparr>) s1)))"

definition add_edge ::
    "addr \<Rightarrow> int \<Rightarrow> int \<Rightarrow> real \<Rightarrow> real \<Rightarrow> state \<Rightarrow> fault + (addr \<times> state)" where
  "add_edge current location type' stdev baseline s =
     (case access s current of
        Some f \<Rightarrow> Inl f
      | None \<Rightarrow>
          if edge_type (edges s current) = HEAD then
            Inr (current, edge_store current
              (\<lambda>e. e\<lparr>edge_location := location, edge_type := type', edge_local_stdev := stdev,
                     edge_local_baseline := baseline\<rparr>) s)
          else
            (case calloc_and_check 1 sizeof_edge ''Cannot allocate next edge'' s of
               (p, s1) \<Rightarrow>
                 (let s2 = edge_store current (\<lambda>e. e\<lparr>edge_next := p\<rparr>) s1
                  in if errorcode s2 \<noteq> 0 then Inr (NULL, s2)
                     else
                       (case access s2 p of
                          Some f \<Rightarrow> Inl f
                        | None \<Rightarrow>
                            Inr (p, edge_store p
                              (\<lambda>e. e\<lparr>edge_location := location, edge_type := type',
                                     edge_local_stdev := stdev, edge_local_baseline := baseline,
                                     edge_next := NULL\<rparr>) s2)))))"

text \<open>
  A caller appends a sequence of edges by passing the node returned by one call of
  \<^verbatim>\<open>add_edge\<close> to the next, and stops when a call returns \<^verbatim>\<open>NULL\<close>.
\<close>

fun add_edges ::
    "(int \<times> int \<times> real \<times> real) list \<Rightarrow> addr \<Rightarrow> state \<Rightarrow> fault + (addr \<times> state)" where
  "add_edges [] current s = Inr (current, s)"
| "add_edges ((location, type', stdev, baseline) # rest) current s =
     (case add_edge current location type' stdev baseline s of
        Inl f \<Rightarrow> Inl f
      | Inr (p, s1) \<Rightarrow> if p = NULL then Inr (NULL, s1) else add_edges rest p s1)"

text \<open>
  The nodes reached from a pointer through the \<^verbatim>\<open>next\<close> field up to \<^verbatim>\<open>NULL\<close>,
  as a list of live blocks, for any of the list structs (\<open>nxt\<close> reads the field), and
  the condition on the allocator's bookkeeping under which a new block is distinct from
  every live one.
\<close>

fun chain :: "(addr \<rightharpoonup> nat) \<Rightarrow> (addr \<Rightarrow> addr) \<Rightarrow> addr \<Rightarrow> addr list \<Rightarrow> bool" where
  "chain b nxt p [] = (p = NULL)"
| "chain b nxt p (a # as) = (p = a \<and> a \<noteq> NULL \<and> b a \<noteq> None \<and> chain b nxt (nxt a) as)"

definition edge_list :: "state \<Rightarrow> addr \<Rightarrow> addr list \<Rightarrow> bool" where
  "edge_list s p as = chain (blocks s) (\<lambda>a. edge_next (edges s a)) p as"

definition heap_ok :: "state \<Rightarrow> bool" where
  "heap_ok s = (\<forall>a. blocks s a \<noteq> None \<longrightarrow> 0 < a \<and> a \<le> brk s)"

section \<open>Level lists\<close>

definition initialize_levels :: "state \<Rightarrow> fault + (addr \<times> state)" where
  "initialize_levels s =
     (case calloc_and_check 1 sizeof_cusumlevel ''Cannot allocate head level'' s of
        (head, s1) \<Rightarrow>
          (case access s1 head of
             Some f \<Rightarrow> Inl f
           | None \<Rightarrow>
               Inr (head, level_store head
                 (\<lambda>l. l\<lparr>level_current := 0, level_length := 0, level_next := NULL\<rparr>) s1)))"

definition add_cusum_level ::
    "addr \<Rightarrow> real \<Rightarrow> int \<Rightarrow> state \<Rightarrow> fault + (addr \<times> state)" where
  "add_cusum_level lastlevel current length' s =
     (case access s lastlevel of
        Some f \<Rightarrow> Inl f
      | None \<Rightarrow>
          if lastlevel \<noteq> NULL \<and> 0 < level_length (levels s lastlevel) then
            (case calloc_and_check 1 sizeof_cusumlevel ''Cannot allocate next level'' s of
               (p, s1) \<Rightarrow>
                 (let s2 = level_store lastlevel (\<lambda>l. l\<lparr>level_next := p\<rparr>) s1
                  in case access s2 p of
                       Some f \<Rightarrow> Inl f
                     | None \<Rightarrow>
                         Inr (p, level_store p
                           (\<lambda>l. l\<lparr>level_current := current, level_length := length',
                                  level_next := NULL\<rparr>) s2)))
          else
            Inr (lastlevel, level_store lastlevel
              (\<lambda>l. l\<lparr>level_current := current, level_length := length',
                     level_next := NULL\<rparr>) s))"

text \<open>
  In \<^verbatim>\<open>add_cusum_level\<close> both branches dereference \<^verbatim>\<open>lastlevel\<close>: the first in
  the test after the null check, the second at its first assignment. So a null or dead
  \<^verbatim>\<open>lastlevel\<close> is a fault on either path, which the leading \<open>access\<close> states.
\<close>

text \<open>
  A caller appends a sequence of levels by passing the node returned by one call of
  \<^verbatim>\<open>add_cusum_level\<close> to the next. The result lists the nodes returned.
\<close>

fun add_cusum_levels ::
    "(real \<times> int) list \<Rightarrow> addr \<Rightarrow> state \<Rightarrow> fault + (addr list \<times> state)" where
  "add_cusum_levels [] lastlevel s = Inr ([], s)"
| "add_cusum_levels ((current, length') # rest) lastlevel s =
     (case add_cusum_level lastlevel current length' s of
        Inl f \<Rightarrow> Inl f
      | Inr (p, s1) \<Rightarrow>
          (case add_cusum_levels rest p s1 of
             Inl f \<Rightarrow> Inl f
           | Inr (ps, s2) \<Rightarrow> Inr (p # ps, s2)))"

section \<open>The input-file registry\<close>

partial_function (option) get_filesize_loop ::
    "state \<Rightarrow> addr \<Rightarrow> int \<Rightarrow> (fault + int) option" where
  "get_filesize_loop s current length' =
     (if current = NULL then Some (Inr length')
      else if blocks s current = None then Some (Inl InvalidPointer)
      else if \<not> int64_range (length' + file_length (input_files s current))
      then Some (Inl SignedOverflow)
      else get_filesize_loop s (file_next (input_files s current))
             (length' + file_length (input_files s current)))"

definition get_filesize :: "addr \<Rightarrow> state \<Rightarrow> (fault + int) option" where
  "get_filesize input s = get_filesize_loop s input 0"

definition initialize_input_files :: "int \<Rightarrow> state \<Rightarrow> fault + (addr \<times> state)" where
  "initialize_input_files datatype' s =
     (case calloc_and_check 1 sizeof_input_file ''Cannot allocate head file struct'' s of
        (head, s1) \<Rightarrow>
          if errorcode s1 \<noteq> 0 then Inr (NULL, s1)
          else
            (case access s1 head of
               Some f \<Rightarrow> Inl f
             | None \<Rightarrow>
                 if datatype' = CHIMERA then
                   (case calloc_and_check 1 sizeof_chimera ''Cannot allocate chimera for head'' s1 of
                      (d, s2) \<Rightarrow>
                        (let s3 = file_store head (\<lambda>f. f\<lparr>daqsetup := d\<rparr>) s2
                         in if errorcode s3 \<noteq> 0 then Inr (NULL, free head s3)
                            else Inr (head, file_store head
                                   (\<lambda>f. f\<lparr>timestamp := 0, file_next := NULL\<rparr>) s3)))
                 else
                   Inr (head, file_store head
                     (\<lambda>f. f\<lparr>daqsetup := NULL, timestamp := 0, file_next := NULL\<rparr>) s1)))"

text \<open>
  The first block of \<^verbatim>\<open>add_input_file\<close> (the branch that allocates a node). It
  writes \<^verbatim>\<open>insert->daqsetup\<close> before it looks at \<^verbatim>\<open>errorcode\<close>. A result
  \<^verbatim>\<open>NULL\<close> stands for the function's \<^verbatim>\<open>return NULL\<close>.
\<close>

definition add_input_file_alloc :: "int \<Rightarrow> state \<Rightarrow> fault + (addr \<times> state)" where
  "add_input_file_alloc datatype' s =
     (case calloc_and_check 1 sizeof_input_file ''Cannot allocate next file struct'' s of
        (insert', s1) \<Rightarrow>
          (case access s1 insert' of
             Some f \<Rightarrow> Inl f
           | None \<Rightarrow>
               (let s2 = file_store insert' (\<lambda>f. f\<lparr>daqsetup := NULL\<rparr>) s1
                in if errorcode s2 \<noteq> 0 then Inr (NULL, s2)
                   else if datatype' = CHIMERA then
                     (case calloc_and_check 1 sizeof_chimera
                             ''Cannot allocate daq for next file struct'' s2 of
                        (d, s3) \<Rightarrow>
                          (let s4 = file_store insert' (\<lambda>f. f\<lparr>daqsetup := d\<rparr>) s3
                           in if errorcode s4 \<noteq> 0 then Inr (NULL, free insert' s4)
                              else Inr (insert', file_store insert'
                                     (\<lambda>f. f\<lparr>file_next := NULL\<rparr>) s4)))
                   else
                     Inr (insert', file_store insert'
                       (\<lambda>f. f\<lparr>daqsetup := NULL, file_next := NULL\<rparr>) s2))))"

text \<open>The body of the \<^verbatim>\<open>fgets\<close> loop, for one line of the settings file.\<close>

definition daq_store ::
    "addr \<Rightarrow> (chimera \<Rightarrow> chimera) \<Rightarrow> state \<Rightarrow> fault + state" where
  "daq_store insert' f s =
     (case access s (daqsetup (input_files s insert')) of
        Some e \<Rightarrow> Inl e
      | None \<Rightarrow> Inr (chimera_store (daqsetup (input_files s insert')) f s))"

definition and_then :: "fault + state \<Rightarrow> (state \<Rightarrow> fault + state) \<Rightarrow> fault + state" where
  "and_then r k = (case r of Inl e \<Rightarrow> Inl e | Inr s \<Rightarrow> k s)"

definition settings_line_step :: "addr \<Rightarrow> settings_line \<Rightarrow> state \<Rightarrow> fault + state" where
  "settings_line_step insert' l s =
     and_then (if key l = ''SETUP_TIAgain''
               then daq_store insert' (\<lambda>c. c\<lparr>TIAgain := double_value l\<rparr>) s else Inr s)
      (\<lambda>s. and_then (if key l = ''ADCSAMPLERATE''
               then daq_store insert' (\<lambda>c. c\<lparr>samplerate := double_value l\<rparr>) s else Inr s)
      (\<lambda>s. and_then (if key l = ''SETUP_preADCgain''
               then daq_store insert' (\<lambda>c. c\<lparr>preADCgain := double_value l\<rparr>) s else Inr s)
      (\<lambda>s. and_then (if key l = ''SETUP_pAoffset''
               then daq_store insert' (\<lambda>c. c\<lparr>currentoffset := double_value l\<rparr>) s else Inr s)
      (\<lambda>s. and_then (if key l = ''SETUP_ADCVREF''
               then daq_store insert' (\<lambda>c. c\<lparr>ADCvref := double_value l\<rparr>) s else Inr s)
      (\<lambda>s. if key l = ''mytimestamp''
            then Inr (file_store insert' (\<lambda>f. f\<lparr>timestamp := double_value l\<rparr>) s)
            else if key l = ''SETUP_ADCBITS''
            then daq_store insert' (\<lambda>c. c\<lparr>ADCbits := long_value l\<rparr>) s
            else Inr s)))))"

fun settings_loop :: "addr \<Rightarrow> settings_line list \<Rightarrow> state \<Rightarrow> fault + state" where
  "settings_loop insert' [] s = Inr s"
| "settings_loop insert' (l # ls) s =
     (case settings_line_step insert' l s of
        Inl e \<Rightarrow> Inl e
      | Inr s1 \<Rightarrow> settings_loop insert' ls s1)"

text \<open>
  The \<^verbatim>\<open>CHIMERA\<close> block of \<^verbatim>\<open>add_input_file\<close>: it opens the settings file, reads
  it line by line and closes it. The boolean result says that the function returns
  \<^verbatim>\<open>NULL\<close> here.
\<close>

definition add_input_file_settings ::
    "addr \<Rightarrow> string \<Rightarrow> state \<Rightarrow> fault + (bool \<times> state)" where
  "add_input_file_settings insert' settingsname s =
     (case fopen64_and_check settingsname ''r'' 7 s of
        (settings, s1) \<Rightarrow>
          if errorcode s1 \<noteq> 0
          then Inr (True, free insert' (free (daqsetup (input_files s1 insert')) s1))
          else
            (case disk s1 settingsname of
               None \<Rightarrow> Inl InvalidPointer
             | Some f \<Rightarrow>
                 (case settings_loop insert' (file_lines f) s1 of
                    Inl e \<Rightarrow> Inl e
                  | Inr s2 \<Rightarrow> Inr (False, fclose settings s2))))"

text \<open>
  The rest of \<^verbatim>\<open>add_input_file\<close>, in three parts. First the \<^verbatim>\<open>switch\<close> that
  sets the sample size, held in a \<^verbatim>\<open>uint16_t\<close>, and the header size by data type.
\<close>

definition sample_layout ::
    "int \<Rightarrow> binary_decoder option \<Rightarrow> state \<Rightarrow> fault + (int \<times> int \<times> state)" where
  "sample_layout datatype' bincfg s =
     (if datatype' = CHIMERA then Inr (2, 0, s)
      else if datatype' = BINARY then
        (case bincfg of
           None \<Rightarrow> Inl NullDereference
         | Some b \<Rightarrow> Inr ((data_size b * n_arrays b) mod 2 ^ 16, header_bytes b, s))
      else Inr (0, 0, fatal ERR_DATA s))"

text \<open>
  Last the statements after the data file is open: the length from the end offset
  \<open>end_offset\<close> that \<^verbatim>\<open>ftello64\<close> reports, by a subtraction in \<^verbatim>\<open>int64_t\<close> and
  the integer division of C, the close of the stream, the timestamp of the formats other
  than \<^verbatim>\<open>CHIMERA\<close>, and the link from \<^verbatim>\<open>current\<close>.
\<close>

definition add_input_file_measure ::
    "addr \<Rightarrow> addr \<Rightarrow> bool \<Rightarrow> int \<Rightarrow> addr \<Rightarrow> int \<Rightarrow> int \<Rightarrow> int \<Rightarrow> state \<Rightarrow>
     fault + (addr \<times> state)" where
  "add_input_file_measure current insert' headflag datatype' stream end_offset
       sample_size_bytes header_bytes' s =
     (if \<not> int64_range (end_offset - header_bytes') then Inl SignedOverflow
      else if sample_size_bytes = 0 then Inl DivisionByZero
      else
        (let s1 = file_store insert'
                    (\<lambda>g. g\<lparr>file_length :=
                       (end_offset - header_bytes') sdiv sample_size_bytes\<rparr>) s;
             s2 = file_store insert' (\<lambda>g. g\<lparr>data_file := NULL\<rparr>) (fclose stream s1)
         in case (if datatype' \<noteq> CHIMERA then
                    (case access s2 current of
                       Some e \<Rightarrow> Inl e
                     | None \<Rightarrow> Inr (file_store insert'
                         (\<lambda>g. g\<lparr>timestamp :=
                            to_double (timestamp (input_files s2 current) + 1)\<rparr>) s2))
                  else Inr s2) of
              Inl e \<Rightarrow> Inl e
            | Inr s3 \<Rightarrow>
                if \<not> headflag
                then (case access s3 current of
                        Some e \<Rightarrow> Inl e
                      | None \<Rightarrow> Inr (insert', file_store current
                          (\<lambda>g. g\<lparr>file_next := insert'\<rparr>) s3))
                else Inr (insert', s3)))"

text \<open>Between the two, the file name is copied and the data file is opened.\<close>

definition add_input_file_probe ::
    "addr \<Rightarrow> addr \<Rightarrow> bool \<Rightarrow> string \<Rightarrow> int \<Rightarrow> binary_decoder option \<Rightarrow> state \<Rightarrow>
     fault + (addr \<times> state)" where
  "add_input_file_probe current insert' headflag filename datatype' bincfg s =
     (case sample_layout datatype' bincfg s of
        Inl e \<Rightarrow> Inl e
      | Inr (sample_size_bytes, header_bytes', s1) \<Rightarrow>
          (case fopen64_and_check filename ''rb'' 8
                  (file_store insert'
                     (\<lambda>f. f\<lparr>datafilename := take (STRLENGTH - 1) filename\<rparr>) s1) of
             (stream, s2) \<Rightarrow>
               (let s3 = file_store insert' (\<lambda>f. f\<lparr>data_file := stream\<rparr>) s2
                in if errorcode s3 \<noteq> 0
                   then Inr (NULL, free insert' (free (daqsetup (input_files s3 insert')) s3))
                   else
                     (case disk s3 filename of
                        None \<Rightarrow> Inl InvalidPointer
                      | Some f \<Rightarrow>
                          add_input_file_measure current insert' headflag datatype' stream
                            (file_size f) sample_size_bytes header_bytes' s3))))"

definition add_input_file_fill ::
    "addr \<Rightarrow> addr \<Rightarrow> bool \<Rightarrow> string \<Rightarrow> string \<Rightarrow> int \<Rightarrow> binary_decoder option \<Rightarrow> state \<Rightarrow>
     fault + (addr \<times> state)" where
  "add_input_file_fill current insert' headflag filename settingsname datatype' bincfg s =
     (case access s insert' of
        Some e \<Rightarrow> Inl e
      | None \<Rightarrow>
          (let s1 = file_store insert' (\<lambda>f. f\<lparr>file_offset := 0\<rparr>) s
           in case (if datatype' = CHIMERA then add_input_file_settings insert' settingsname s1
                    else Inr (False, s1)) of
                Inl e \<Rightarrow> Inl e
              | Inr (returned, s2) \<Rightarrow>
                  if returned then Inr (NULL, s2)
                  else add_input_file_probe current insert' headflag filename datatype' bincfg s2))"

definition add_input_file ::
    "addr \<Rightarrow> string \<Rightarrow> string \<Rightarrow> int \<Rightarrow> binary_decoder option \<Rightarrow> state \<Rightarrow>
     fault + (addr \<times> state)" where
  "add_input_file current filename settingsname datatype' bincfg s =
     (case (if current = NULL then None else access s current) of
        Some e \<Rightarrow> Inl e
      | None \<Rightarrow>
          if current \<noteq> NULL \<and> 0 < timestamp (input_files s current) then
            (case add_input_file_alloc datatype' s of
               Inl e \<Rightarrow> Inl e
             | Inr (insert', s1) \<Rightarrow>
                 if insert' = NULL then Inr (NULL, s1)
                 else add_input_file_fill current insert' False filename settingsname
                        datatype' bincfg s1)
          else add_input_file_fill current current True filename settingsname
                 datatype' bincfg s)"

text \<open>
  A caller registers a sequence of files by passing the node returned by one call of
  \<^verbatim>\<open>add_input_file\<close> to the next. The result lists the nodes returned.
\<close>

fun add_input_files ::
    "(string \<times> string) list \<Rightarrow> int \<Rightarrow> binary_decoder option \<Rightarrow> addr \<Rightarrow> state \<Rightarrow>
     fault + (addr list \<times> state)" where
  "add_input_files [] datatype' bincfg current s = Inr ([], s)"
| "add_input_files ((filename, settingsname) # rest) datatype' bincfg current s =
     (case add_input_file current filename settingsname datatype' bincfg s of
        Inl e \<Rightarrow> Inl e
      | Inr (p, s1) \<Rightarrow>
          if p = NULL then Inr ([NULL], s1)
          else (case add_input_files rest datatype' bincfg p s1 of
                  Inl e \<Rightarrow> Inl e
                | Inr (ps, s2) \<Rightarrow> Inr (p # ps, s2)))"

section \<open>The padded signal\<close>

text \<open>
  The element count of the padded buffer is computed in \<^verbatim>\<open>double\<close>, because
  \<^verbatim>\<open>my_max\<close> takes and returns \<^verbatim>\<open>double\<close>, and is converted to the
  \<^verbatim>\<open>int64_t\<close> parameter of \<^verbatim>\<open>calloc_and_check\<close>. The index of the inner view,
  \<^verbatim>\<open>config->data_order + filterpadding\<close>, is an \<^verbatim>\<open>int64_t\<close> sum.
\<close>

definition initialize_signal ::
    "configuration \<Rightarrow> int \<Rightarrow> binary_decoder option \<Rightarrow> state \<Rightarrow> fault + (addr \<times> state)" where
  "initialize_signal config filterpadding bincfg s =
     (case calloc_and_check 1 sizeof_signal_struct ''cannot allocate signal struct'' s of
        (sig, s1) \<Rightarrow>
          if errorcode s1 \<noteq> 0 then Inr (NULL, s1)
          else
            (case double_to_int64
                    (to_double (to_double (of_int (readlength config))
                       + to_double (2 * to_double
                           (my_max (to_double (of_int (data_order config)))
                                   (to_double (of_int (event_order config)))
                            + to_double (of_int filterpadding))))) of
               Inl e \<Rightarrow> Inl e
             | Inr num \<Rightarrow>
            (case calloc_and_check num sizeof_double
                    ''Cannot allocate file reading signal array'' s1 of
               (padded, s2) \<Rightarrow>
                 (case access s2 sig of
                    Some e \<Rightarrow> Inl e
                  | None \<Rightarrow>
                      (let s3 = signal_store sig (\<lambda>g. g\<lparr>paddedsignal := padded\<rparr>) s2
                       in if errorcode s3 \<noteq> 0 then Inr (NULL, free sig s3)
                          else if \<not> int64_range (data_order config + filterpadding)
                          then Inl SignedOverflow
                          else
                            (let s4 = signal_store sig
                                   (\<lambda>g. g\<lparr>signal := (paddedsignal g,
                                              data_order config + filterpadding),
                                          rawsignal := NULL\<rparr>) s3
                             in case (if cfg_datatype config = CHIMERA then
                                        Inr (calloc_and_check (readlength config) sizeof_uint16
                                          ''Cannot allocate chimera native rawsignal array'' s4)
                                      else if cfg_datatype config = BINARY then
                                        (case bincfg of
                                           None \<Rightarrow> Inl NullDereference
                                         | Some b \<Rightarrow>
                                             Inr (calloc_and_check (readlength config)
                                               (n_arrays b * data_size b)
                                               ''Cannot allocate rawsignal array'' s4))
                                      else Inr (NULL, fatal ERR_DATA s4)) of
                                  Inl e \<Rightarrow> Inl e
                                | Inr (raw, s5) \<Rightarrow>
                                    (let s6 = signal_store sig (\<lambda>g. g\<lparr>rawsignal := raw\<rparr>) s5
                                     in if errorcode s6 \<noteq> 0
                                        then Inr (NULL,
                                          free sig (free (paddedsignal (signals s6 sig)) s6))
                                        else Inr (sig, s6))))))))"

text \<open>
  An index \<open>i\<close> is in bounds for a pointer to \<^verbatim>\<open>double\<close> when the element
  \<open>i\<close> places from the pointer lies inside the pointer's live block.
\<close>

definition in_bounds :: "state \<Rightarrow> addr \<times> int \<Rightarrow> int \<Rightarrow> bool" where
  "in_bounds s ptr i =
     (case blocks s (fst ptr) of
        None \<Rightarrow> False
      | Some n \<Rightarrow> 0 \<le> snd ptr + i \<and> (snd ptr + i + 1) * sizeof_double \<le> int n)"

section \<open>The average run length and the wavelet depth\<close>

text \<open>
  \<^verbatim>\<open>ARL\<close> is one expression on \<^verbatim>\<open>double\<close>. The result \<open>None\<close> stands for a
  \<^verbatim>\<open>double\<close> that is not a finite number: the quotient \<^verbatim>\<open>h/sigma\<close> is an infinity
  or a NaN when \<^verbatim>\<open>sigma\<close> is zero, and so is then every later value of the expression
  that depends on it, up to the result; the last quotient is a NaN when its divisor
  \<^verbatim>\<open>2.0*mun*mun\<close> is zero, its dividend being zero as well.
\<close>

definition ARL :: "int \<Rightarrow> real \<Rightarrow> real \<Rightarrow> real \<Rightarrow> real option" where
  "ARL length' sigma mun h =
     (if sigma = 0 then None
      else
        (let q = to_double (to_double (h / sigma) + to_double 1.166);
             e = to_double (exp (to_double (to_double (- 2.0 * mun) * q)));
             num = to_double (to_double (e - 1.0) + to_double (to_double (2.0 * mun) * q));
             den = to_double (to_double (2.0 * mun) * mun)
         in if den = 0 then None
            else Some (to_double (to_double (num / den) - to_double (of_int length')))))"


section \<open>The baseline histogram\<close>

text \<open>
  In \<^verbatim>\<open>initialize_baseline\<close> the number of bins is the integer part of a
  \<^verbatim>\<open>double\<close>, so the rounding of the operations before it decides the result:
  each operation returns the rounded exact result, and so does \<^verbatim>\<open>pow\<close> of the C
  library, taken as correctly rounded. The number of bins is at most twice the cube root
  of \<open>2\<^sup>6\<^sup>3\<close>, so its conversion to \<^verbatim>\<open>int64_t\<close> is defined. With no bin
  (\<^verbatim>\<open>readlength = 0\<close>) the width \<^verbatim>\<open>delta\<close> is a quotient by zero, an infinity
  or a NaN in C; the value of \<open>bl_delta\<close> in the model does not stand for it.
\<close>

definition pow :: "real \<Rightarrow> real \<Rightarrow> real" where
  "pow x y = to_double (x powr y)"

text \<open>The \<^verbatim>\<open>double\<close> nearest to one third, the value of \<^verbatim>\<open>1.0/3.0\<close>.\<close>

definition third :: real where "third = 6004799503160661 / 2 ^ 54"

function fill_current :: "int \<Rightarrow> int \<Rightarrow> real \<Rightarrow> real \<Rightarrow> real list \<Rightarrow> real list" where
  "fill_current i numbins bmin delta xs =
     (if i < numbins
      then fill_current (i + 1) numbins bmin delta
             (xs[nat i := to_double (bmin + to_double (to_double (of_int i) * delta))])
      else xs)"
  by pat_completeness auto
termination
  by (relation "measure (\<lambda>(i, numbins, bmin, delta, xs). nat (numbins - i))") auto

definition initialize_baseline :: "configuration \<Rightarrow> state \<Rightarrow> fault + (addr \<times> state)" where
  "initialize_baseline config s =
     (case calloc_and_check 1 sizeof_baseline_struct ''Cannot allocate baseline structure'' s of
        (baseline, s1) \<Rightarrow>
          if errorcode s1 \<noteq> 0 then Inr (NULL, s1)
          else
            (case access s1 baseline of
               Some e \<Rightarrow> Inl e
             | None \<Rightarrow>
                 if readlength config < 0 then Inl InvalidConversion
                 else
                   (let range = to_double (baseline_max config - baseline_min config);
                        numbins = truncate (to_double
                          (2 * pow (to_double (of_int (readlength config)))
                                 (to_double (1.0 / 3.0))));
                        delta = to_double (range / to_double (of_int numbins));
                        s2 = baseline_store baseline
                          (\<lambda>b. b\<lparr>bl_baseline_min := baseline_min config,
                                 bl_baseline_max := baseline_max config,
                                 bl_range := range, bl_numbins := numbins,
                                 bl_delta := delta\<rparr>) s1
                    in case calloc_and_check numbins sizeof_double
                              ''Cannot allocate baseline histogram'' s2 of
                         (h, s3) \<Rightarrow>
                           (let s4 = baseline_store baseline (\<lambda>b. b\<lparr>bl_histogram := h\<rparr>) s3
                            in if errorcode s4 \<noteq> 0 then Inr (NULL, free baseline s4)
                               else
                                 (case calloc_and_check numbins sizeof_double
                                         ''Cannot allocate time histogram'' s4 of
                                    (c, s5) \<Rightarrow>
                                      (let s6 = baseline_store baseline
                                             (\<lambda>b. b\<lparr>bl_current := c\<rparr>) s5
                                       in if errorcode s6 \<noteq> 0
                                          then Inr (NULL, free baseline
                                            (free (bl_histogram (baselines s6 baseline)) s6))
                                          else Inr (baseline,
                                            s6\<lparr>doubles := (doubles s6)(c := fill_current 0 numbins
                                              (baseline_min config) delta
                                              (doubles s6 c))\<rparr>)))))))"

section \<open>Starting states and runs\<close>

text \<open>
  A state before any allocation, with \<open>mem\<close> bytes to hand out and the given files on
  disk, on a C library that answers a request of zero bytes with a block.
\<close>

definition fresh_state :: "nat \<Rightarrow> (string \<rightharpoonup> disk_file) \<Rightarrow> state" where
  "fresh_state mem files =
     \<lparr>errorcode = 0, avail = mem, brk = 0, zero_size_null = False, blocks = Map.empty,
      edges = (\<lambda>p. zero_edge), levels = (\<lambda>p. zero_level), chimeras = (\<lambda>p. zero_chimera),
      input_files = (\<lambda>p. zero_input_file), signals = (\<lambda>p. zero_signal),
      baselines = (\<lambda>p. zero_baseline), doubles = (\<lambda>p. []), disk = files,
      open_streams = Map.empty\<rparr>"

text \<open>
  The run of the edge-list claim: a list is initialized, the edges are appended, and the
  nodes are counted from the head. The result is the head, the last node returned and the
  count.
\<close>

definition count_after_appends ::
    "(int \<times> int \<times> real \<times> real) list \<Rightarrow> state \<Rightarrow>
     fault + (addr \<times> addr \<times> (fault + int) option)" where
  "count_after_appends args s =
     (case initialize_edges s of
        Inl e \<Rightarrow> Inl e
      | Inr (head, s1) \<Rightarrow>
          (case add_edges args head s1 of
             Inl e \<Rightarrow> Inl e
           | Inr (tail, s2) \<Rightarrow> Inr (head, tail, count_edges head s2)))"

text \<open>
  The run of the level-list claim: a list is initialized and the levels are appended.
  The result gives the head, the nodes returned by the appends, and the lengths and the
  \<^verbatim>\<open>next\<close> pointers of those nodes at the end.
\<close>

definition levels_after_appends ::
    "(real \<times> int) list \<Rightarrow> state \<Rightarrow> fault + (addr \<times> addr list \<times> int list \<times> addr list)" where
  "levels_after_appends args s =
     (case initialize_levels s of
        Inl e \<Rightarrow> Inl e
      | Inr (head, s1) \<Rightarrow>
          (case add_cusum_levels args head s1 of
             Inl e \<Rightarrow> Inl e
           | Inr (ps, s2) \<Rightarrow>
               Inr (head, ps,
                    map (\<lambda>p. level_length (levels s2 p)) ps,
                    map (\<lambda>p. level_next (levels s2 p)) ps)))"

text \<open>
  The run of the padded-signal claim: a signal is initialized and an index is tested
  against the bounds of the inner view.
\<close>

definition signal_index_in_bounds ::
    "configuration \<Rightarrow> int \<Rightarrow> binary_decoder option \<Rightarrow> state \<Rightarrow> int \<Rightarrow> fault + bool" where
  "signal_index_in_bounds config filterpadding bincfg s i =
     (case initialize_signal config filterpadding bincfg s of
        Inl e \<Rightarrow> Inl e
      | Inr (sig, s') \<Rightarrow> Inr (sig \<noteq> NULL \<and> in_bounds s' (signal (signals s' sig)) i))"

text \<open>
  The run of the file-length claim: a file is registered at a node, and the length and the
  data-file handle of the node returned are read.
\<close>

definition registered_length ::
    "addr \<Rightarrow> string \<Rightarrow> string \<Rightarrow> int \<Rightarrow> binary_decoder option \<Rightarrow> state \<Rightarrow>
     fault + (addr \<times> int \<times> addr)" where
  "registered_length current filename settingsname datatype' bincfg s =
     (case add_input_file current filename settingsname datatype' bincfg s of
        Inl e \<Rightarrow> Inl e
      | Inr (p, s') \<Rightarrow> Inr (p, file_length (input_files s' p), data_file (input_files s' p)))"

text \<open>
  The run of the timestamp claim: a list of files is initialized, the files are
  registered in sequence, and the result gives the head, the nodes returned, and their
  timestamps, lengths and \<^verbatim>\<open>next\<close> pointers at the end, with the total that
  \<^verbatim>\<open>get_filesize\<close> returns from the head.
\<close>

definition register_files ::
    "(string \<times> string) list \<Rightarrow> int \<Rightarrow> binary_decoder option \<Rightarrow> state \<Rightarrow>
     fault + (addr \<times> addr list \<times> real list \<times> int list \<times> addr list \<times> (fault + int) option)" where
  "register_files files datatype' bincfg s =
     (case initialize_input_files datatype' s of
        Inl e \<Rightarrow> Inl e
      | Inr (head, s1) \<Rightarrow>
          (case add_input_files files datatype' bincfg head s1 of
             Inl e \<Rightarrow> Inl e
           | Inr (ps, s2) \<Rightarrow>
               Inr (head, ps,
                    map (\<lambda>p. timestamp (input_files s2 p)) ps,
                    map (\<lambda>p. file_length (input_files s2 p)) ps,
                    map (\<lambda>p. file_next (input_files s2 p)) ps,
                    get_filesize head s2)))"

text \<open>
  The run of the bin-count claim: a baseline is initialized and its number of bins read.
\<close>

definition baseline_numbins :: "configuration \<Rightarrow> state \<Rightarrow> fault + (addr \<times> int)" where
  "baseline_numbins config s =
     (case initialize_baseline config s of
        Inl e \<Rightarrow> Inl e
      | Inr (baseline, s') \<Rightarrow> Inr (baseline, bl_numbins (baselines s' baseline)))"

section \<open>Properties\<close>

subsection \<open>State bookkeeping\<close>

lemma new_block_fields [simp]:
  "errorcode (new_block p n s) = errorcode s"
  "brk (new_block p n s) = p"
  "zero_size_null (new_block p n s) = zero_size_null s"
  "blocks (new_block p n s) = (blocks s)(p \<mapsto> n)"
  "edges (new_block p n s) = (edges s)(p := zero_edge)"
  "levels (new_block p n s) = (levels s)(p := zero_level)"
  "chimeras (new_block p n s) = (chimeras s)(p := zero_chimera)"
  "input_files (new_block p n s) = (input_files s)(p := zero_input_file)"
  "signals (new_block p n s) = (signals s)(p := zero_signal)"
  "baselines (new_block p n s) = (baselines s)(p := zero_baseline)"
  "doubles (new_block p n s) = (doubles s)(p := replicate (n div 8) 0)"
  "disk (new_block p n s) = disk s"
  "open_streams (new_block p n s) = open_streams s"
  by (simp_all add: new_block_def)

lemma edge_store_fields [simp]:
  "errorcode (edge_store p f s) = errorcode s"
  "brk (edge_store p f s) = brk s"
  "blocks (edge_store p f s) = blocks s"
  "edges (edge_store p f s) = (edges s)(p := f (edges s p))"
  by (simp_all add: edge_store_def)

lemma file_store_fields [simp]:
  "errorcode (file_store p f s) = errorcode s"
  "avail (file_store p f s) = avail s"
  "brk (file_store p f s) = brk s"
  "zero_size_null (file_store p f s) = zero_size_null s"
  "blocks (file_store p f s) = blocks s"
  "edges (file_store p f s) = edges s"
  "levels (file_store p f s) = levels s"
  "chimeras (file_store p f s) = chimeras s"
  "input_files (file_store p f s) = (input_files s)(p := f (input_files s p))"
  "signals (file_store p f s) = signals s"
  "baselines (file_store p f s) = baselines s"
  "doubles (file_store p f s) = doubles s"
  "disk (file_store p f s) = disk s"
  "open_streams (file_store p f s) = open_streams s"
  by (simp_all add: file_store_def)

lemma chimera_store_fields [simp]:
  "errorcode (chimera_store p f s) = errorcode s"
  "avail (chimera_store p f s) = avail s"
  "brk (chimera_store p f s) = brk s"
  "zero_size_null (chimera_store p f s) = zero_size_null s"
  "blocks (chimera_store p f s) = blocks s"
  "edges (chimera_store p f s) = edges s"
  "levels (chimera_store p f s) = levels s"
  "chimeras (chimera_store p f s) = (chimeras s)(p := f (chimeras s p))"
  "input_files (chimera_store p f s) = input_files s"
  "signals (chimera_store p f s) = signals s"
  "baselines (chimera_store p f s) = baselines s"
  "doubles (chimera_store p f s) = doubles s"
  "disk (chimera_store p f s) = disk s"
  "open_streams (chimera_store p f s) = open_streams s"
  by (simp_all add: chimera_store_def)

lemma fclose_fields [simp]:
  "errorcode (fclose p s) = errorcode s"
  "avail (fclose p s) = avail s"
  "brk (fclose p s) = brk s"
  "zero_size_null (fclose p s) = zero_size_null s"
  "blocks (fclose p s) = blocks s"
  "edges (fclose p s) = edges s"
  "levels (fclose p s) = levels s"
  "chimeras (fclose p s) = chimeras s"
  "input_files (fclose p s) = input_files s"
  "signals (fclose p s) = signals s"
  "baselines (fclose p s) = baselines s"
  "doubles (fclose p s) = doubles s"
  "disk (fclose p s) = disk s"
  "open_streams (fclose p s) = (open_streams s)(p := None)"
  by (simp_all add: fclose_def)

lemma fatal_fields [simp]:
  "errorcode (fatal e s) = e"
  "avail (fatal e s) = avail s"
  "brk (fatal e s) = brk s"
  "zero_size_null (fatal e s) = zero_size_null s"
  "blocks (fatal e s) = blocks s"
  "edges (fatal e s) = edges s"
  "levels (fatal e s) = levels s"
  "chimeras (fatal e s) = chimeras s"
  "input_files (fatal e s) = input_files s"
  "signals (fatal e s) = signals s"
  "baselines (fatal e s) = baselines s"
  "doubles (fatal e s) = doubles s"
  "disk (fatal e s) = disk s"
  "open_streams (fatal e s) = open_streams s"
  by (simp_all add: fatal_def)


lemma free_fields [simp]:
  "errorcode (free p s) = errorcode s"
  "brk (free p s) = brk s"
  "blocks (free p s) = (blocks s)(p := None)"
  "input_files (free p s) = input_files s"
  "chimeras (free p s) = chimeras s"
  "disk (free p s) = disk s"
  "open_streams (free p s) = open_streams s"
  by (auto simp: free_def split: option.splits)

lemma calloc_and_check_result:
  assumes "calloc_and_check num size' msg s = (p, s1)"
  shows "(p = NULL \<and> s1 = fatal ERR_MEM s) \<or>
         (p = Suc (brk s) \<and>
          s1 = new_block (Suc (brk s)) (nat (num mod 2 ^ 64) * nat (size' mod 2 ^ 64)) s)"
  using assms
  by (auto simp: calloc_and_check_def calloc_def Let_def split: if_splits)

lemma heap_ok_fresh: "heap_ok s \<Longrightarrow> blocks s (Suc (brk s)) = None"
  by (auto simp: heap_ok_def)

lemma heap_ok_new_block: "heap_ok s \<Longrightarrow> heap_ok (new_block (Suc (brk s)) n s)"
  by (auto simp: heap_ok_def)

lemma heap_ok_edge_store [simp]: "heap_ok (edge_store p f s) = heap_ok s"
  by (simp add: heap_ok_def)

subsection \<open>Lists in the heap\<close>

lemma chain_unique:
  "chain b nxt p as \<Longrightarrow> chain b nxt p bs \<Longrightarrow> as = bs"
proof (induction as arbitrary: p bs)
  case Nil
  then show ?case by (cases bs) auto
next
  case (Cons a as)
  then show ?case by (cases bs) auto
qed

lemma chain_suffix:
  "chain b nxt p (as @ a # bs) \<Longrightarrow> chain b nxt (nxt a) bs"
  by (induction as arbitrary: p) auto

lemma chain_head_not_in_tail:
  assumes "chain b nxt (nxt a) as"
  shows "a \<notin> set as"
proof
  assume "a \<in> set as"
  then obtain xs ys where split: "as = xs @ a # ys"
    by (auto simp: in_set_conv_decomp)
  with assms have "chain b nxt (nxt a) ys"
    using chain_suffix by blast
  with assms have "as = ys"
    by (rule chain_unique)
  with split show False by simp
qed

lemma chain_distinct: "chain b nxt p as \<Longrightarrow> distinct as"
  by (induction as arbitrary: p) (auto dest: chain_head_not_in_tail)

lemma chain_snoc:
  "chain b nxt p (as @ [a]) \<Longrightarrow> a \<noteq> NULL \<and> b a \<noteq> None \<and> nxt a = NULL"
  by (induction as arbitrary: p) auto

lemma chain_live: "chain b nxt p as \<Longrightarrow> x \<in> set as \<Longrightarrow> b x \<noteq> None"
  by (induction as arbitrary: p) auto

lemma chain_cong:
  "chain b nxt p as \<Longrightarrow> (\<And>a. a \<in> set as \<Longrightarrow> nxt' a = nxt a \<and> b' a \<noteq> None) \<Longrightarrow>
   chain b' nxt' p as"
  by (induction as arbitrary: p) auto

lemma chain_extend_aux:
  "chain b nxt p (as @ [a]) \<Longrightarrow> a \<notin> set as \<Longrightarrow> q \<notin> set (as @ [a]) \<Longrightarrow> q \<noteq> NULL \<Longrightarrow>
   b q \<noteq> None \<Longrightarrow> nxt q = NULL \<Longrightarrow> chain b (nxt(a := q)) p (as @ [a, q])"
  by (induction as arbitrary: p) auto

lemma chain_extend:
  assumes "chain b nxt p (as @ [a])" "q \<notin> set (as @ [a])" "q \<noteq> NULL" "b q \<noteq> None"
    "nxt q = NULL"
  shows "chain b (nxt(a := q)) p (as @ [a, q])"
proof -
  from assms(1) have "distinct (as @ [a])" by (rule chain_distinct)
  then have "a \<notin> set as" by simp
  with assms show ?thesis by (intro chain_extend_aux)
qed

subsection \<open>Counting the nodes of an edge list\<close>

lemma count_edges_loop_list:
  "edge_list s p as \<Longrightarrow> count_edges_loop s p c = Some (Inr (c + int (length as)))"
  unfolding edge_list_def
proof (induction as arbitrary: p c)
  case Nil
  then show ?case by (simp add: count_edges_loop.simps)
next
  case (Cons a as)
  then have "count_edges_loop s (edge_next (edges s a)) (c + 1) = Some (Inr (c + 1 + int (length as)))"
    by simp
  with Cons.prems show ?case
    by (subst count_edges_loop.simps) auto
qed

lemma add_edge_fill:
  assumes "access s cur = None" "edge_type (edges s cur) = HEAD"
  shows "add_edge cur l t sd bl s = Inr (cur, edge_store cur
              (\<lambda>e. e\<lparr>edge_location := l, edge_type := t, edge_local_stdev := sd,
                     edge_local_baseline := bl\<rparr>) s)"
  using assms by (simp add: add_edge_def)

lemma add_edge_grow:
  assumes "access s cur = None" "edge_type (edges s cur) \<noteq> HEAD" "errorcode s = 0"
    "calloc_and_check 1 sizeof_edge ''Cannot allocate next edge'' s = (q, s')" "q \<noteq> NULL"
  shows "add_edge cur l t sd bl s = Inr (q, edge_store q
              (\<lambda>e. e\<lparr>edge_location := l, edge_type := t, edge_local_stdev := sd,
                     edge_local_baseline := bl, edge_next := NULL\<rparr>)
              (edge_store cur (\<lambda>e. e\<lparr>edge_next := q\<rparr>) s'))"
  using assms calloc_and_check_result [OF assms(4)]
  by (simp add: add_edge_def access_def Let_def)

lemma add_edge_fail:
  assumes "access s cur = None" "edge_type (edges s cur) \<noteq> HEAD"
    "calloc_and_check 1 sizeof_edge ''Cannot allocate next edge'' s = (q, s')"
    "q = NULL \<or> errorcode s \<noteq> 0"
  shows "\<exists>s2. add_edge cur l t sd bl s = Inr (NULL, s2)"
  using assms calloc_and_check_result [OF assms(3)]
  by (auto simp: add_edge_def access_def Let_def ERR_MEM_def)


lemma add_edge_step:
  assumes ok: "heap_ok s"
    and path: "edge_list s head (as @ [cur])"
    and step: "add_edge cur l t sd bl s = Inr (p, s1)"
    and nn: "p \<noteq> NULL"
    and t: "t \<noteq> HEAD"
  shows "heap_ok s1 \<and> edge_type (edges s1 p) \<noteq> HEAD \<and>
         (if edge_type (edges s cur) = HEAD
          then edge_list s1 head (as @ [cur])
          else edge_list s1 head (as @ [cur, p]))"
proof -
  note ch = path [unfolded edge_list_def]
  from ch have cur: "cur \<noteq> NULL" "blocks s cur \<noteq> None" "edge_next (edges s cur) = NULL"
    using chain_snoc by fastforce+
  then have acc: "access s cur = None" by (simp add: access_def)
  show ?thesis
  proof (cases "edge_type (edges s cur) = HEAD")
    case True
    from step add_edge_fill [OF acc True] have s1: "p = cur" "s1 = edge_store cur
              (\<lambda>e. e\<lparr>edge_location := l, edge_type := t, edge_local_stdev := sd,
                     edge_local_baseline := bl\<rparr>) s"
      by auto
    have "edge_list s1 head (as @ [cur])"
      unfolding edge_list_def
      using ch by (rule chain_cong) (use chain_live [OF ch] s1 in auto)
    with True s1 ok t show ?thesis by simp
  next
    case False
    obtain q s' where c: "calloc_and_check 1 sizeof_edge ''Cannot allocate next edge'' s = (q, s')"
      by fastforce
    have "\<not> (q = NULL \<or> errorcode s \<noteq> 0)"
    proof
      assume "q = NULL \<or> errorcode s \<noteq> 0"
      from add_edge_fail [OF acc False c this, of l t sd bl] step nn show False by auto
    qed
    then have good: "q \<noteq> NULL" "errorcode s = 0" by simp_all
    from calloc_and_check_result [OF c] good
    have q: "q = Suc (brk s)" and s': "s' = new_block q (nat (1 mod 2 ^ 64) * nat (sizeof_edge mod 2 ^ 64)) s"
      by auto
    from ok have fresh: "blocks s q = None" using q heap_ok_fresh by simp
    have qnotin: "q \<notin> set (as @ [cur])"
      using chain_live [OF ch] fresh by blast
    then have qcur: "q \<noteq> cur" by simp
    from step add_edge_grow [OF acc False good(2) c good(1), of l t sd bl]
    have pq: "p = q" and s1: "s1 = edge_store q
              (\<lambda>e. e\<lparr>edge_location := l, edge_type := t, edge_local_stdev := sd,
                     edge_local_baseline := bl, edge_next := NULL\<rparr>)
              (edge_store cur (\<lambda>e. e\<lparr>edge_next := q\<rparr>) s')"
      by auto
    have p1: "chain (blocks s') (\<lambda>a. edge_next (edges s' a)) head (as @ [cur])"
      using ch by (rule chain_cong) (use qnotin s' chain_live [OF ch] in auto)
    have "chain (blocks s') ((\<lambda>a. edge_next (edges s' a))(cur := q)) head (as @ [cur, q])"
      using p1 qnotin good(1) s' by (intro chain_extend) (auto simp: zero_edge_def)
    then have "edge_list s1 head (as @ [cur, q])"
      unfolding edge_list_def
      by (rule chain_cong) (use qcur qnotin s1 s' chain_live [OF ch] in \<open>auto simp: zero_edge_def\<close>)
    moreover have "heap_ok s1"
      using ok s1 s' q heap_ok_new_block by simp
    ultimately show ?thesis using False pq s1 t by simp
  qed
qed

lemma add_edges_lists:
  assumes "heap_ok s"
    and "edge_list s head (as @ [cur])"
    and "add_edges args cur s = Inr (tail, s')"
    and "tail \<noteq> NULL"
    and "\<forall>(l, t, sd, bl) \<in> set args. t \<noteq> HEAD"
  shows "\<exists>bs. edge_list s' head bs \<and>
           length bs = (if edge_type (edges s cur) = HEAD \<and> args \<noteq> []
                        then length as + length args else length as + 1 + length args)"
  using assms
proof (induction args arbitrary: s cur as)
  case Nil
  then show ?case by auto
next
  case (Cons x rest)
  obtain l t sd bl where x: "x = (l, t, sd, bl)" by (cases x) auto
  from Cons.prems(3) x obtain p s1 where
    st: "add_edge cur l t sd bl s = Inr (p, s1)" and nn: "p \<noteq> NULL"
    and rest: "add_edges rest p s1 = Inr (tail, s')"
    using Cons.prems(4) by (auto split: sum.splits if_splits)
  from Cons.prems(5) x have t: "t \<noteq> HEAD" and tr: "\<forall>(l, t, sd, bl) \<in> set rest. t \<noteq> HEAD"
    by auto
  note stp = add_edge_step [OF Cons.prems(1,2) st nn t]
  show ?case
  proof (cases "edge_type (edges s cur) = HEAD")
    case True
    with st Cons.prems(2) have "p = cur"
      using add_edge_fill [of s cur l t sd bl] chain_snoc [OF Cons.prems(2) [unfolded edge_list_def]]
      by (simp add: access_def)
    with stp True have "heap_ok s1" "edge_list s1 head (as @ [p])"
      "edge_type (edges s1 p) \<noteq> HEAD" by simp_all
    from Cons.IH [OF this(1,2) rest Cons.prems(4) tr] this(3) True show ?thesis by auto
  next
    case False
    with stp have "heap_ok s1" "edge_list s1 head ((as @ [cur]) @ [p])"
      "edge_type (edges s1 p) \<noteq> HEAD" by simp_all
    from Cons.IH [OF this(1,2) rest Cons.prems(4) tr] this(3) False show ?thesis by auto
  qed
qed

lemma initialize_edges_result:
  assumes "initialize_edges s = Inr (head, s1)" "head \<noteq> NULL" "heap_ok s"
  shows "heap_ok s1 \<and> edge_list s1 head [head] \<and>
         edge_type (edges s1 head) = HEAD \<and> errorcode s1 = 0"
proof -
  obtain q s' where c: "calloc_and_check 1 sizeof_edge ''Cannot initialize edge list'' s = (q, s')"
    by fastforce
  from calloc_and_check_result [OF c] assms c show ?thesis
    by (auto simp: initialize_edges_def access_def heap_ok_new_block edge_list_def
        split: if_splits option.splits)
qed


text \<open>
  C2 (as amended). \<^verbatim>\<open>count_edges\<close> counts nodes, so on the list returned by
  \<^verbatim>\<open>initialize_edges\<close> it returns 1, the sentinel being a node. After \<open>k \<ge> 1\<close>
  successful appends of edges whose type is not \<^verbatim>\<open>HEAD\<close>, each made at the node the
  previous one returned, it returns \<open>k\<close>: the first append fills the sentinel and
  every later one adds a node.
\<close>

theorem count_edges_after_appends:
  assumes "heap_ok s"
    and "count_after_appends args s = Inr (head, tail, c)"
    and "head \<noteq> NULL" and "tail \<noteq> NULL"
    and "\<forall>(l, t, sd, bl) \<in> set args. t \<noteq> HEAD"
  shows "c = Some (Inr (if args = [] then 1 else int (length args)))"
proof -
  from assms(2) obtain s1 s2 where
    init: "initialize_edges s = Inr (head, s1)"
    and app: "add_edges args head s1 = Inr (tail, s2)"
    and c: "c = count_edges head s2"
    by (auto simp: count_after_appends_def split: sum.splits)
  from initialize_edges_result [OF init assms(3,1)]
  have i: "heap_ok s1" "edge_list s1 head ([] @ [head])"
    "edge_type (edges s1 head) = HEAD" by simp_all
  from add_edges_lists [OF i(1,2) app assms(4,5)] i(3)
  obtain bs where "edge_list s2 head bs"
    "length bs = (if args \<noteq> [] then length args else 1)" by auto
  then show ?thesis
    using count_edges_loop_list [of s2 head bs 0] c by (simp add: count_edges_def)
qed

lemma heap_ok_fresh_state: "heap_ok (fresh_state mem files)"
  by (simp add: heap_ok_def fresh_state_def)

lemmas run_defs = count_after_appends_def initialize_edges_def add_edge_def
  calloc_and_check_def calloc_def new_block_def edge_store_def fatal_def access_def
  fresh_state_def count_edges_def sizeof_edge_def HEAD_def zero_edge_def Let_def

text \<open>
  C2 as stated fails: on the list just initialized the count is 1, not 0.
\<close>

theorem count_edges_sentinel_counterexample:
  "count_after_appends [] (fresh_state 4096 Map.empty) = Inr (1, 1, Some (Inr 1))"
  by (simp add: run_defs count_edges_loop.simps)

lemma two_appends_run:
  "\<exists>c. count_after_appends [(5, 1, 0.5, 1), (9, - 1, 0.5, 1)] (fresh_state 4096 Map.empty) = Inr (1, 2, c)"
  by (simp add: run_defs)

theorem count_edges_after_appends_witness:
  "count_after_appends [(5, 1, 0.5, 1), (9, - 1, 0.5, 1)] (fresh_state 4096 Map.empty)
     = Inr (1, 2, Some (Inr 2))"
proof -
  obtain c where run: "count_after_appends [(5, 1, 0.5, 1), (9, - 1, 0.5, 1)]
      (fresh_state 4096 Map.empty) = Inr (1, 2, c)"
    using two_appends_run by blast
  have types: "\<forall>(l, t, sd, bl) \<in> set [(5, 1, 0.5, 1), (9, - 1, 0.5, 1 :: real)]. t \<noteq> HEAD"
    by (simp add: HEAD_def)
  from count_edges_after_appends [OF heap_ok_fresh_state run _ _ types]
  have "c = Some (Inr 2)" by simp
  with run show ?thesis by simp
qed

subsection \<open>Level lists: the sentinel is recognised by its length\<close>

lemma level_store_fields [simp]:
  "errorcode (level_store p f s) = errorcode s"
  "avail (level_store p f s) = avail s"
  "brk (level_store p f s) = brk s"
  "blocks (level_store p f s) = blocks s"
  "levels (level_store p f s) = (levels s)(p := f (levels s p))"
  by (simp_all add: level_store_def)

lemma add_cusum_level_fill:
  assumes "lastlevel \<noteq> NULL" "blocks s lastlevel \<noteq> None"
    "level_length (levels s lastlevel) \<le> 0"
  shows "add_cusum_level lastlevel c n s = Inr (lastlevel, level_store lastlevel
           (\<lambda>l. l\<lparr>level_current := c, level_length := n, level_next := NULL\<rparr>) s)"
  using assms by (simp add: add_cusum_level_def access_def)

lemma calloc_and_check_level:
  assumes "nat sizeof_cusumlevel \<le> avail s"
  shows "calloc_and_check 1 sizeof_cusumlevel msg s
         = (Suc (brk s), new_block (Suc (brk s)) (nat sizeof_cusumlevel) s)"
  using assms by (simp add: calloc_and_check_def calloc_def sizeof_cusumlevel_def)

lemma add_cusum_level_grow:
  assumes "lastlevel \<noteq> NULL" "blocks s lastlevel \<noteq> None"
    "0 < level_length (levels s lastlevel)" "nat sizeof_cusumlevel \<le> avail s"
  shows "add_cusum_level lastlevel c n s =
           Inr (Suc (brk s), level_store (Suc (brk s))
             (\<lambda>l. l\<lparr>level_current := c, level_length := n, level_next := NULL\<rparr>)
             (level_store lastlevel (\<lambda>l. l\<lparr>level_next := Suc (brk s)\<rparr>)
                (new_block (Suc (brk s)) (nat sizeof_cusumlevel) s)))"
  using assms(1-3)
  by (simp add: add_cusum_level_def access_def calloc_and_check_level [OF assms(4)])

text \<open>
  C10 (as amended). \<^verbatim>\<open>add_cusum_level\<close> tells an unfilled node from a filled one by
  the \<^verbatim>\<open>length\<close> field of the node it is given alone. On a live node of length at
  most 0 it writes \<^verbatim>\<open>current\<close> and \<^verbatim>\<open>length\<close> in place and returns the same
  node, and nothing is allocated. On a live node of positive length, with memory for a
  node available, it allocates a block that was not live before, links it after the node
  given, writes the level into it and returns it. So a level of length 0 appended at an
  unfilled node does not grow the list, and appended at a filled node it does, by one
  node; in both cases the node that holds it still counts as unfilled, and the next
  append at it overwrites it in place.
\<close>

theorem add_cusum_level_sentinel_by_length:
  assumes "heap_ok s" and "lastlevel \<noteq> NULL" and "blocks s lastlevel \<noteq> None"
  shows "(level_length (levels s lastlevel) \<le> 0 \<longrightarrow>
            add_cusum_level lastlevel c n s = Inr (lastlevel, level_store lastlevel
              (\<lambda>l. l\<lparr>level_current := c, level_length := n, level_next := NULL\<rparr>) s) \<and>
            blocks (level_store lastlevel
              (\<lambda>l. l\<lparr>level_current := c, level_length := n, level_next := NULL\<rparr>) s)
              = blocks s \<and>
            add_cusum_level lastlevel c n (level_store lastlevel
              (\<lambda>l. l\<lparr>level_current := c0, level_length := 0, level_next := NULL\<rparr>) s)
              = Inr (lastlevel, level_store lastlevel
                  (\<lambda>l. l\<lparr>level_current := c, level_length := n, level_next := NULL\<rparr>)
                  (level_store lastlevel
                     (\<lambda>l. l\<lparr>level_current := c0, level_length := 0, level_next := NULL\<rparr>) s))) \<and>
         (0 < level_length (levels s lastlevel) \<and> nat sizeof_cusumlevel \<le> avail s \<longrightarrow>
            blocks s (Suc (brk s)) = None \<and> Suc (brk s) \<noteq> lastlevel \<and>
            add_cusum_level lastlevel c n s = Inr (Suc (brk s), level_store (Suc (brk s))
              (\<lambda>l. l\<lparr>level_current := c, level_length := n, level_next := NULL\<rparr>)
              (level_store lastlevel (\<lambda>l. l\<lparr>level_next := Suc (brk s)\<rparr>)
                 (new_block (Suc (brk s)) (nat sizeof_cusumlevel) s))) \<and>
            add_cusum_level (Suc (brk s)) c n (level_store (Suc (brk s))
              (\<lambda>l. l\<lparr>level_current := c0, level_length := 0, level_next := NULL\<rparr>)
              (level_store lastlevel (\<lambda>l. l\<lparr>level_next := Suc (brk s)\<rparr>)
                 (new_block (Suc (brk s)) (nat sizeof_cusumlevel) s)))
              = Inr (Suc (brk s), level_store (Suc (brk s))
                  (\<lambda>l. l\<lparr>level_current := c, level_length := n, level_next := NULL\<rparr>)
                  (level_store (Suc (brk s))
                     (\<lambda>l. l\<lparr>level_current := c0, level_length := 0, level_next := NULL\<rparr>)
                     (level_store lastlevel (\<lambda>l. l\<lparr>level_next := Suc (brk s)\<rparr>)
                        (new_block (Suc (brk s)) (nat sizeof_cusumlevel) s)))))"
proof (intro conjI impI)
  assume le: "level_length (levels s lastlevel) \<le> 0"
  show "add_cusum_level lastlevel c n s = Inr (lastlevel, level_store lastlevel
          (\<lambda>l. l\<lparr>level_current := c, level_length := n, level_next := NULL\<rparr>) s)"
    by (rule add_cusum_level_fill [OF assms(2,3) le])
  show "blocks (level_store lastlevel
          (\<lambda>l. l\<lparr>level_current := c, level_length := n, level_next := NULL\<rparr>) s) = blocks s"
    by simp
  show "add_cusum_level lastlevel c n (level_store lastlevel
          (\<lambda>l. l\<lparr>level_current := c0, level_length := 0, level_next := NULL\<rparr>) s)
        = Inr (lastlevel, level_store lastlevel
            (\<lambda>l. l\<lparr>level_current := c, level_length := n, level_next := NULL\<rparr>)
            (level_store lastlevel
               (\<lambda>l. l\<lparr>level_current := c0, level_length := 0, level_next := NULL\<rparr>) s))"
    using assms(3) by (intro add_cusum_level_fill [OF assms(2)]) simp_all
next
  assume pos: "0 < level_length (levels s lastlevel) \<and> nat sizeof_cusumlevel \<le> avail s"
  from heap_ok_fresh [OF assms(1)] show fresh: "blocks s (Suc (brk s)) = None" .
  with assms(3) show "Suc (brk s) \<noteq> lastlevel" by auto
  from pos show "add_cusum_level lastlevel c n s = Inr (Suc (brk s), level_store (Suc (brk s))
          (\<lambda>l. l\<lparr>level_current := c, level_length := n, level_next := NULL\<rparr>)
          (level_store lastlevel (\<lambda>l. l\<lparr>level_next := Suc (brk s)\<rparr>)
             (new_block (Suc (brk s)) (nat sizeof_cusumlevel) s)))"
    by (intro add_cusum_level_grow [OF assms(2,3)]) simp_all
  show "add_cusum_level (Suc (brk s)) c n (level_store (Suc (brk s))
          (\<lambda>l. l\<lparr>level_current := c0, level_length := 0, level_next := NULL\<rparr>)
          (level_store lastlevel (\<lambda>l. l\<lparr>level_next := Suc (brk s)\<rparr>)
             (new_block (Suc (brk s)) (nat sizeof_cusumlevel) s)))
        = Inr (Suc (brk s), level_store (Suc (brk s))
            (\<lambda>l. l\<lparr>level_current := c, level_length := n, level_next := NULL\<rparr>)
            (level_store (Suc (brk s))
               (\<lambda>l. l\<lparr>level_current := c0, level_length := 0, level_next := NULL\<rparr>)
               (level_store lastlevel (\<lambda>l. l\<lparr>level_next := Suc (brk s)\<rparr>)
                  (new_block (Suc (brk s)) (nat sizeof_cusumlevel) s))))"
    by (intro add_cusum_level_fill) simp_all
qed

lemmas level_run_defs = levels_after_appends_def add_cusum_level_def initialize_levels_def
  calloc_and_check_def calloc_def new_block_def level_store_def fatal_def access_def
  fresh_state_def sizeof_cusumlevel_def zero_level_def Let_def

text \<open>
  C10 as stated fails at a filled tail: after a level of length 5, the level of length 0
  is given a node of its own (node 2, linked after the head), so the list has grown. The
  append after it writes over that node.
\<close>

theorem add_cusum_level_zero_length_counterexample:
  "levels_after_appends [(1, 5), (2, 0), (3, 7)] (fresh_state 4096 Map.empty)
     = Inr (1, [1, 2, 2], [5, 7, 7], [2, NULL, NULL])"
  by (simp add: level_run_defs)

lemma heap_ok_store_new: "heap_ok (new_block 1 64 (fresh_state 4096 Map.empty))"
  by (simp add: heap_ok_def fresh_state_def new_block_def)

lemma heap_ok_level_store [simp]: "heap_ok (level_store p f s) = heap_ok s"
  by (simp add: heap_ok_def)

theorem add_cusum_level_sentinel_by_length_witness:
  "add_cusum_level 1 2 0 (new_block 1 64 (fresh_state 4096 Map.empty)) =
     Inr (1, level_store 1
       (\<lambda>l. l\<lparr>level_current := 2, level_length := 0, level_next := NULL\<rparr>)
       (new_block 1 64 (fresh_state 4096 Map.empty))) \<and>
   add_cusum_level 1 3 7
     (level_store 1 (\<lambda>l. l\<lparr>level_length := 5\<rparr>) (new_block 1 64 (fresh_state 4096 Map.empty))) =
     Inr (2, level_store 2
       (\<lambda>l. l\<lparr>level_current := 3, level_length := 7, level_next := NULL\<rparr>)
       (level_store 1 (\<lambda>l. l\<lparr>level_next := 2\<rparr>)
          (new_block 2 64 (level_store 1 (\<lambda>l. l\<lparr>level_length := 5\<rparr>)
             (new_block 1 64 (fresh_state 4096 Map.empty))))))"
proof -
  let ?s = "new_block 1 64 (fresh_state 4096 Map.empty)"
  let ?t = "level_store 1 (\<lambda>l. l\<lparr>level_length := 5\<rparr>) ?s"
  have live: "blocks ?s 1 \<noteq> None" "blocks ?t 1 \<noteq> None"
    by (simp_all add: new_block_def)
  have len: "level_length (levels ?s 1) \<le> 0"
    by (simp add: new_block_def zero_level_def)
  have pos: "0 < level_length (levels ?t 1)" "nat sizeof_cusumlevel \<le> avail ?t"
    by (simp_all add: new_block_def fresh_state_def sizeof_cusumlevel_def)
  have ok: "heap_ok ?t" using heap_ok_store_new by simp
  have brk: "Suc (brk ?t) = 2" "nat sizeof_cusumlevel = 64"
    by (simp_all add: sizeof_cusumlevel_def)
  from add_cusum_level_sentinel_by_length [OF heap_ok_store_new _ live(1), of 2 0] len
    add_cusum_level_sentinel_by_length [OF ok _ live(2), of 3 7] pos
  show ?thesis by (simp add: brk flip: numeral_2_eq_2)
qed


subsection \<open>The checked allocation layer\<close>

text \<open>
  C8 (as amended). With a count of 0 \<^verbatim>\<open>calloc_and_check\<close> asks \<^verbatim>\<open>calloc\<close> for
  zero bytes and has no case of its own for that. Where the C library answers such a
  request with a block, the routine returns that block, of length zero, and leaves the
  error code as it was; where the library answers with \<^verbatim>\<open>NULL\<close>, which C allows, the
  routine returns \<^verbatim>\<open>NULL\<close> and sets the error code to \<^verbatim>\<open>ERR_MEM\<close>.
\<close>

theorem calloc_and_check_zero_count:
  "fst (calloc_and_check 0 size' msg s) = (if zero_size_null s then NULL else Suc (brk s)) \<and>
   errorcode (snd (calloc_and_check 0 size' msg s))
     = (if zero_size_null s then ERR_MEM else errorcode s) \<and>
   blocks (snd (calloc_and_check 0 size' msg s)) (Suc (brk s))
     = (if zero_size_null s then blocks s (Suc (brk s)) else Some 0)"
  by (simp add: calloc_and_check_def calloc_def)

theorem calloc_and_check_zero_count_witness:
  "fst (calloc_and_check 0 8 ''Cannot allocate'' (fresh_state 0 Map.empty)) = 1 \<and>
   errorcode (snd (calloc_and_check 0 8 ''Cannot allocate'' (fresh_state 0 Map.empty))) = 0 \<and>
   blocks (snd (calloc_and_check 0 8 ''Cannot allocate'' (fresh_state 0 Map.empty))) 1 = Some 0"
  using calloc_and_check_zero_count [of 8 "''Cannot allocate''" "fresh_state 0 Map.empty"]
  by (simp add: fresh_state_def)

text \<open>
  C8 as stated fails on a C library that returns \<^verbatim>\<open>NULL\<close> for a request of zero
  bytes: the result is null and the error code is set, with memory to spare.
\<close>

theorem calloc_and_check_zero_count_counterexample:
  "fst (calloc_and_check 0 8 ''Cannot allocate''
         ((fresh_state 4096 Map.empty)\<lparr>zero_size_null := True\<rparr>)) = NULL \<and>
   errorcode (snd (calloc_and_check 0 8 ''Cannot allocate''
         ((fresh_state 4096 Map.empty)\<lparr>zero_size_null := True\<rparr>))) = ERR_MEM"
  by (simp add: calloc_and_check_def calloc_def fresh_state_def)

text \<open>
  C4 does not hold of the code. When the allocation fails, \<^verbatim>\<open>initialize_levels\<close>
  writes through the null result without a look at the error code, the allocating branch
  of \<^verbatim>\<open>add_input_file\<close> writes \<^verbatim>\<open>insert->daqsetup\<close> before its check, and
  \<^verbatim>\<open>add_cusum_level\<close> writes through the null \<^verbatim>\<open>lastlevel->next\<close>.
  \<^verbatim>\<open>initialize_edges\<close>, in the same state, checks first and returns \<^verbatim>\<open>NULL\<close>.
\<close>

theorem unchecked_allocation_null_dereference:
  "initialize_levels (fresh_state 0 Map.empty) = Inl NullDereference \<and>
   add_input_file_alloc BINARY (fresh_state 0 Map.empty) = Inl NullDereference \<and>
   add_cusum_level 1 2 3
     (level_store 1 (\<lambda>l. l\<lparr>level_length := 5\<rparr>) (new_block 1 64 (fresh_state 64 Map.empty)))
     = Inl NullDereference \<and>
   initialize_edges (fresh_state 0 Map.empty)
     = Inr (NULL, fatal ERR_MEM (fresh_state 0 Map.empty))"
  by (simp add: initialize_levels_def add_input_file_alloc_def add_cusum_level_def
      initialize_edges_def calloc_and_check_def calloc_def fresh_state_def access_def
      new_block_def level_store_def fatal_def
      sizeof_cusumlevel_def sizeof_input_file_def sizeof_edge_def ERR_MEM_def)

subsection \<open>Rounding to \<^verbatim>\<open>double\<close>\<close>

text \<open>
  Within one binade \<open>to_double\<close> rounds to a multiple of the unit in the last place.
  A number with a significand of at most 53 bits is returned as it is, and the result is
  never further from the argument than its \<open>2\<^sup>5\<^sup>3\<close>-th part.
\<close>

lemma to_double_binade:
  fixes e :: int
  assumes "2 powr of_int e \<le> x" "x < 2 powr (of_int e + 1)"
  shows "to_double x = of_int (round (x / 2 powr (of_int e - 52))) * 2 powr (of_int e - 52)"
proof -
  have "(0 :: real) < 2 powr of_int e" by simp
  with assms(1) have pos: "0 < x" by linarith
  have "of_int e \<le> log 2 x"
    using assms(1) pos by (simp add: le_log_iff)
  moreover have "log 2 x < of_int e + 1"
    using assms(2) pos by (simp add: log_less_iff)
  ultimately have "\<lfloor>log 2 x\<rfloor> = e" by (simp add: floor_eq_iff)
  with pos show ?thesis by (simp add: to_double_def Let_def)
qed

lemma round_eq:
  fixes y :: real
  assumes "of_int n - 1 / 2 \<le> y" "y < of_int n + 1 / 2"
  shows "round y = n"
  using assms by (simp add: round_def floor_eq_iff)

lemma to_double_representable:
  fixes m j :: int
  assumes "\<bar>m\<bar> < 2 ^ 53"
  shows "to_double (of_int m * 2 powr of_int j) = of_int m * 2 powr of_int j"
proof (cases "m = 0")
  case True
  then show ?thesis by (simp add: to_double_def)
next
  case False
  define x :: real where "x = of_int m * 2 powr of_int j"
  define e :: int where "e = \<lfloor>log 2 \<bar>x\<bar>\<rfloor>"
  have ax: "\<bar>x\<bar> = of_int \<bar>m\<bar> * 2 powr of_int j"
    by (simp add: x_def abs_mult)
  have "1 \<le> \<bar>m\<bar>" using False by simp
  then have m1: "(1 :: real) \<le> of_int \<bar>m\<bar>" by linarith
  have xpos: "0 < \<bar>x\<bar>" using False by (simp add: x_def)
  then have x0: "x \<noteq> 0" by simp
  have "of_int \<bar>m\<bar> < (2 :: real) ^ 53" using assms
    by (metis of_int_less_numeral_power_cancel_iff)
  then have "\<bar>x\<bar> < 2 ^ 53 * 2 powr of_int j"
    unfolding ax by (intro mult_strict_right_mono) simp_all
  also have "\<dots> = 2 powr (53 + of_int j)"
    by (simp add: powr_add powr_numeral flip: powr_realpow)
  finally have "log 2 \<bar>x\<bar> < 53 + of_int j"
    using xpos by (simp add: log_less_iff)
  moreover have "of_int e \<le> log 2 \<bar>x\<bar>" by (simp add: e_def)
  ultimately have "(of_int e :: real) < of_int (53 + j)" by simp
  then have ej: "e < 53 + j" by (simp only: of_int_less_iff)
  define k :: nat where "k = nat (j + 52 - e)"
  have k: "of_int j - (of_int e - 52) = (of_nat k :: real)"
    using ej by (simp add: k_def)
  have "x / 2 powr (of_int e - 52) = of_int m * 2 powr (of_int j - (of_int e - 52))"
    by (simp add: x_def powr_diff)
  also have "\<dots> = of_int m * 2 ^ k"
    by (simp only: k powr_realpow)
  also have "\<dots> = of_int (m * 2 ^ k)" by simp
  finally have q: "x / 2 powr (of_int e - 52) = of_int (m * 2 ^ k)" .
  have "to_double x = of_int (round (x / 2 powr (of_int e - 52))) * 2 powr (of_int e - 52)"
    using x0 by (simp add: to_double_def Let_def e_def)
  also have "\<dots> = of_int (m * 2 ^ k) * 2 powr (of_int e - 52)"
    by (simp only: q round_of_int)
  also have "\<dots> = x / 2 powr (of_int e - 52) * 2 powr (of_int e - 52)"
    by (simp only: q)
  also have "\<dots> = x" by simp
  finally show ?thesis by (simp only: x_def)
qed

lemma to_double_of_int:
  fixes m :: int
  assumes "\<bar>m\<bar> < 2 ^ 53"
  shows "to_double (of_int m) = of_int m"
  using to_double_representable [OF assms, of 0] by simp

lemma to_double_numeral:
  "(numeral n :: int) < 2 ^ 53 \<Longrightarrow> to_double (numeral n) = numeral n"
  using to_double_of_int [of "numeral n"] by simp

lemma to_double_zero: "to_double 0 = 0"
  by (simp add: to_double_def)

lemma to_double_one: "to_double 1 = 1"
  using to_double_of_int [of 1] by simp


lemma to_double_div_pow2:
  fixes m :: int
  assumes "\<bar>m\<bar> < 2 ^ 53"
  shows "to_double (of_int m / 2 ^ k) = of_int m / 2 ^ k"
proof -
  have "(2 :: real) powr of_int (- int k) = 1 / 2 ^ k"
    by (simp add: powr_minus powr_realpow inverse_eq_divide)
  with to_double_representable [OF assms, of "- int k"] show ?thesis by simp
qed

lemma to_double_mult_pow2:
  fixes m :: int
  assumes "\<bar>m\<bar> < 2 ^ 53"
  shows "to_double (of_int m * 2 ^ k) = of_int m * 2 ^ k"
proof -
  have "(2 :: real) powr of_int (int k) = 2 ^ k"
    by (simp add: powr_realpow)
  with to_double_representable [OF assms, of "int k"] show ?thesis by simp
qed

subsection \<open>The average run length\<close>

lemma to_double_1166: "to_double 1.166 = 5251197165513998 / 2 ^ 52"
proof -
  have a: "2 powr of_int 0 \<le> (1.166 :: real)" by simp
  have b: "(1.166 :: real) < 2 powr (of_int 0 + 1)" by simp
  have u: "(2 :: real) powr (of_int 0 - 52) = 1 / 2 ^ 52"
    by (simp add: powr_minus powr_numeral flip: powr_realpow)
  have r: "round ((1.166 :: real) / (1 / 2 ^ 52)) = 5251197165513998"
    by (rule round_eq) simp_all
  from to_double_binade [OF a b] show ?thesis
    by (simp only: u r)
qed

lemma to_double_exp_tiny:
  fixes t :: real
  assumes "0 < t" "t \<le> 1 / 2 ^ 54"
  shows "to_double (exp (- t)) = 1"
proof -
  let ?x = "exp (- t)"
  have lo: "1 - t \<le> ?x" using exp_ge_add_one_self [of "- t"] by simp
  have hi: "?x < 1" using assms(1) by simp
  have "(1 :: real) / 2 ^ 54 \<le> 1 / 2" by simp
  with assms(2) lo have "1 / 2 \<le> ?x" by linarith
  then have a: "2 powr of_int (- 1) \<le> ?x" by (simp add: powr_minus)
  have b: "?x < 2 powr (of_int (- 1) + 1)" using hi by simp
  have u: "(2 :: real) powr (of_int (- 1) - 52) = 1 / 2 ^ 53"
    by (simp add: powr_minus powr_numeral flip: powr_realpow)
  have "round (?x / (1 / 2 ^ 53)) = 2 ^ 53"
  proof (rule round_eq)
    from lo assms(2) have "1 - 1 / 2 ^ 54 \<le> ?x" by linarith
    then have "(1 - 1 / 2 ^ 54) * 2 ^ 53 \<le> ?x * 2 ^ 53"
      by (intro mult_right_mono) simp_all
    then show "real_of_int (2 ^ 53) - 1 / 2 \<le> ?x / (1 / 2 ^ 53)" by simp
    have "?x / (1 / 2 ^ 53) = ?x * 2 ^ 53" by simp
    also have "\<dots> < 1 * 2 ^ 53"
      using hi by (intro mult_strict_right_mono) simp_all
    finally have "?x / (1 / 2 ^ 53) < 2 ^ 53 + 1 / 2" by linarith
    then show "?x / (1 / 2 ^ 53) < real_of_int (2 ^ 53) + 1 / 2"
      by (simp only: of_int_numeral of_int_power)
  qed
  with to_double_binade [OF a b] show ?thesis
    by (simp only: u) simp
qed

lemma ARL_small_shift:
  "ARL 0 1 (1 / 2 ^ 60) 0 = Some (5251197165513998 * 2 ^ 8)"
proof -
  define c :: real where "c = 5251197165513998 / 2 ^ 52"
  have cc: "to_double c = c"
    using to_double_div_pow2 [of 5251197165513998 52] by (simp add: c_def)
  have q: "to_double (to_double (0 / 1) + to_double 1.166) = c"
    by (simp only: div_by_1 to_double_zero to_double_1166 add_0 c_def [symmetric] cc)
  have m2: "to_double (- 2.0 * (1 / 2 ^ 60)) = - (1 / 2 ^ 59)"
    using to_double_div_pow2 [of "- 1" 59] by simp
  have a: "to_double (- (1 / 2 ^ 59) * c) = - (c / 2 ^ 59)"
    using to_double_div_pow2 [of "- 5251197165513998" 111] by (simp add: c_def)
  have ex: "to_double (exp (- (c / 2 ^ 59))) = 1"
    by (rule to_double_exp_tiny) (simp_all add: c_def)
  have e1: "to_double (1 - 1.0) = 0" by (simp add: to_double_zero)
  have p2: "to_double (2.0 * (1 / 2 ^ 60)) = 1 / 2 ^ 59"
    using to_double_div_pow2 [of 1 59] by simp
  have b: "to_double (1 / 2 ^ 59 * c) = c / 2 ^ 59"
    using to_double_div_pow2 [of 5251197165513998 111] by (simp add: c_def)
  have num: "to_double (0 + c / 2 ^ 59) = c / 2 ^ 59"
    using b by simp
  have den: "to_double (1 / 2 ^ 59 * (1 / 2 ^ 60)) = 1 / 2 ^ 119"
    using to_double_div_pow2 [of 1 119] by simp
  have quo: "to_double (c / 2 ^ 59 / (1 / 2 ^ 119)) = 5251197165513998 * 2 ^ 8"
    using to_double_mult_pow2 [of 5251197165513998 8] by (simp add: c_def)
  have fin: "to_double (5251197165513998 * 2 ^ 8 - to_double (of_int 0))
             = 5251197165513998 * 2 ^ 8"
    using to_double_mult_pow2 [of 5251197165513998 8] by (simp add: to_double_zero)
  have nz: "(1 :: real) \<noteq> 0" "(1 / 2 ^ 119 :: real) \<noteq> 0" by simp_all
  show ?thesis
    unfolding ARL_def Let_def
    by (simp only: q m2 a ex e1 p2 b num den quo fin nz if_False)
qed

lemma exp_upper_quadratic:
  fixes t :: real
  assumes "0 \<le> t"
  shows "exp (- t) \<le> 1 - t + t\<^sup>2 / 2"
proof -
  have l: "1 + t + t\<^sup>2 / 2 \<le> exp t"
    using assms by (rule exp_lower_Taylor_quadratic)
  have p: "0 < 1 + t + t\<^sup>2 / 2" using assms by (simp add: add_pos_nonneg)
  have "exp (- t) = 1 / exp t" by (simp add: exp_minus inverse_eq_divide)
  also have "\<dots> \<le> 1 / (1 + t + t\<^sup>2 / 2)"
    using l p by (intro divide_left_mono) simp_all
  also have "\<dots> \<le> 1 - t + t\<^sup>2 / 2"
  proof -
    have "(1 - t + t\<^sup>2 / 2) * (1 + t + t\<^sup>2 / 2) = 1 + (t\<^sup>2)\<^sup>2 / 4"
      by (simp add: algebra_simps power2_eq_square)
    then have "1 \<le> (1 - t + t\<^sup>2 / 2) * (1 + t + t\<^sup>2 / 2)" by simp
    then show ?thesis using p by (simp add: divide_le_eq)
  qed
  finally show ?thesis .
qed

lemma ARL_formula_small_shift:
  "(exp (- 2 * (1 / 2 ^ 60) * (0 / 1 + 1.166)) - 1 + 2 * (1 / 2 ^ 60) * (0 / 1 + 1.166))
     / (2 * (1 / 2 ^ 60)\<^sup>2) - of_int 0 < (2 :: real)"
proof -
  define t :: real where "t = 2 * (1 / 2 ^ 60) * (0 / 1 + 1.166)"
  have t0: "0 \<le> t" by (simp add: t_def)
  have tt: "t\<^sup>2 / 2 < 2 * (2 * (1 / 2 ^ 60)\<^sup>2)"
    by (simp add: t_def power2_eq_square)
  have "exp (- t) - 1 + t \<le> t\<^sup>2 / 2"
    using exp_upper_quadratic [OF t0] by simp
  with tt have "exp (- t) - 1 + t < 2 * (2 * (1 / 2 ^ 60)\<^sup>2)" by linarith
  then have "(exp (- t) - 1 + t) / (2 * (1 / 2 ^ 60)\<^sup>2) < 2"
    by (simp add: divide_less_eq)
  moreover have "- 2 * (1 / 2 ^ 60) * (0 / 1 + 1.166) = - t" by (simp add: t_def)
  ultimately show ?thesis by (simp only: t_def [symmetric] of_int_0 diff_zero)
qed

text \<open>
  C5 does not hold of the code. With \<^verbatim>\<open>length = 0\<close>, \<^verbatim>\<open>sigma = 1\<close>,
  \<^verbatim>\<open>h = 0\<close> and the shift \<^verbatim>\<open>mun\<close> equal to \<open>2\<^sup>-\<^sup>6\<^sup>0\<close> the exponential is
  within half a unit in the last place of 1 and is returned as 1, the difference
  \<^verbatim>\<open>exp(...) - 1.0\<close> is 0, and \<^verbatim>\<open>ARL\<close> returns \<open>5251197165513998 * 2\<^sup>8\<close>, above
  \<open>10\<^sup>1\<^sup>8\<close>, where the formula of the claim has a value below 2. With \<^verbatim>\<open>mun = 0\<close>
  the result is the NaN of \<^verbatim>\<open>0.0/0.0\<close>.
\<close>

theorem ARL_cancellation:
  "ARL 0 1 (1 / 2 ^ 60) 0 = Some (5251197165513998 * 2 ^ 8) \<and>
   (exp (- 2 * (1 / 2 ^ 60) * (0 / 1 + 1.166)) - 1 + 2 * (1 / 2 ^ 60) * (0 / 1 + 1.166))
     / (2 * (1 / 2 ^ 60)\<^sup>2) - of_int 0 < (2 :: real) \<and>
   ARL 0 1 0 1 = None"
proof -
  have "ARL 0 1 0 1 = None"
    by (simp add: ARL_def Let_def to_double_zero)
  with ARL_small_shift ARL_formula_small_shift show ?thesis by (intro conjI)
qed

subsection \<open>The wavelet depth\<close>
















subsection \<open>The padded signal and its inner view\<close>

lemmas signal_run_defs = signal_index_in_bounds_def initialize_signal_def
  calloc_and_check_def calloc_def new_block_def signal_store_def fatal_def access_def
  fresh_state_def sizeof_signal_struct_def sizeof_double_def sizeof_uint16_def
  zero_signal_def Let_def my_max_def truncate_def CHIMERA_def BINARY_def in_bounds_def
  double_to_int64_def int64_range_def to_double_numeral to_double_zero

text \<open>
  C1 does not hold of the code. The buffer is sized with the larger of the two filter
  orders on each side, and the view is placed \<^verbatim>\<open>data_order + filterpadding\<close> elements
  into it. With \<^verbatim>\<open>readlength = 10\<close>, orders 2 and 4 and no extra padding the buffer has
  18 elements and the view starts at element 2: the index \<open>-4\<close>, the first of the range
  of the claim, lies before the buffer, and so does \<open>-3\<close>; the indices inside are those
  from \<open>-2\<close> to 15.
\<close>

theorem initialize_signal_view_out_of_bounds:
  "(- (max 2 4 + 0) \<le> (- 4 :: int) \<and> (- 4 :: int) < 10 + (max 2 4 + 0)) \<and>
   signal_index_in_bounds
     \<lparr>readlength = 10, data_order = 2, event_order = 4, baseline_min = 0,
      baseline_max = 1, cfg_datatype = CHIMERA\<rparr> 0 None (fresh_state 4096 Map.empty) (- 4)
     = Inr False \<and>
   signal_index_in_bounds
     \<lparr>readlength = 10, data_order = 2, event_order = 4, baseline_min = 0,
      baseline_max = 1, cfg_datatype = CHIMERA\<rparr> 0 None (fresh_state 4096 Map.empty) (- 3)
     = Inr False \<and>
   signal_index_in_bounds
     \<lparr>readlength = 10, data_order = 2, event_order = 4, baseline_min = 0,
      baseline_max = 1, cfg_datatype = CHIMERA\<rparr> 0 None (fresh_state 4096 Map.empty) (- 2)
     = Inr True \<and>
   signal_index_in_bounds
     \<lparr>readlength = 10, data_order = 2, event_order = 4, baseline_min = 0,
      baseline_max = 1, cfg_datatype = CHIMERA\<rparr> 0 None (fresh_state 4096 Map.empty) 15
     = Inr True \<and>
   signal_index_in_bounds
     \<lparr>readlength = 10, data_order = 2, event_order = 4, baseline_min = 0,
      baseline_max = 1, cfg_datatype = CHIMERA\<rparr> 0 None (fresh_state 4096 Map.empty) 16
     = Inr False"
  by (simp add: signal_run_defs)

subsection \<open>Registering an input file\<close>

lemmas file_run_defs = add_input_file_def add_input_file_fill_def add_input_file_probe_def
  add_input_file_measure_def add_input_file_settings_def add_input_file_alloc_def
  sample_layout_def settings_line_step_def daq_store_def and_then_def
  initialize_input_files_def fopen64_and_check_def fopen64_def fclose_def
  calloc_and_check_def calloc_def new_block_def file_store_def chimera_store_def
  fatal_def free_def access_def fresh_state_def
  sizeof_input_file_def sizeof_chimera_def zero_input_file_def zero_chimera_def
  CHIMERA_def BINARY_def STRLENGTH_def Let_def signed_divide_int_def
  int64_range_def to_double_one to_double_numeral

text \<open>
  C7 does not hold of the code. The sample size is held in a \<^verbatim>\<open>uint16_t\<close>, so the
  product \<^verbatim>\<open>data_size * n_arrays\<close> loses its bits from the 16th on before the
  division. With 32769 arrays of 2 bytes the divisor is 2: a file of 1000 bytes is given
  the length 500, where the quotient of the claim is 0. With 32768 arrays of 2 bytes the
  divisor is 0, and the division is undefined. The example of the claim, one array of 2
  bytes, gives 500, and the handle is not kept.
\<close>

theorem add_input_file_length_narrowed:
  "registered_length 1 ''a.bin'' ''a.txt'' BINARY
     (Some \<lparr>header_bytes = 0, n_arrays = 32769, data_size = 2\<rparr>)
     (new_block 1 1072
        (fresh_state 8192 [''a.bin'' \<mapsto> \<lparr>file_lines = [], file_size = 1000\<rparr>]))
     = Inr (1, 500, NULL) \<and>
   (1000 - 0) sdiv (32769 * 2) = (0 :: int) \<and>
   registered_length 1 ''a.bin'' ''a.txt'' BINARY
     (Some \<lparr>header_bytes = 0, n_arrays = 32768, data_size = 2\<rparr>)
     (new_block 1 1072
        (fresh_state 8192 [''a.bin'' \<mapsto> \<lparr>file_lines = [], file_size = 1000\<rparr>]))
     = Inl DivisionByZero \<and>
   registered_length 1 ''a.bin'' ''a.txt'' BINARY
     (Some \<lparr>header_bytes = 0, n_arrays = 1, data_size = 2\<rparr>)
     (new_block 1 1072
        (fresh_state 8192 [''a.bin'' \<mapsto> \<lparr>file_lines = [], file_size = 1000\<rparr>]))
     = Inr (1, 500, NULL)"
  by (simp add: registered_length_def file_run_defs)

subsection \<open>Timestamps of a sequence of registered files\<close>

lemmas register_run_defs = register_files_def get_filesize_def file_run_defs

text \<open>
  C3 does not hold of the code. For \<^verbatim>\<open>CHIMERA\<close> files the timestamp comes from the
  key \<^verbatim>\<open>mytimestamp\<close> alone. With no such key, two files of 1000 and 600 bytes
  registered in sequence leave the timestamp at 0; the second call finds the head still
  unfilled, writes over it and returns the same node, so the first file is lost: one node
  of length 300 and a total of 300, where the two files have 800 samples. With the key
  (5, then 6) the second call allocates a node, and the list holds both files in order.
\<close>

theorem add_input_file_chimera_without_key:
  "register_files [(''a.bin'', ''a.txt''), (''b.bin'', ''b.txt'')] CHIMERA None
     (fresh_state 8192
        [''a.bin'' \<mapsto> \<lparr>file_lines = [], file_size = 1000\<rparr>,
         ''a.txt'' \<mapsto> \<lparr>file_lines = [\<lparr>key = ''ADCSAMPLERATE'', double_value = 4166666,
                                          long_value = 4166666\<rparr>], file_size = 22\<rparr>,
         ''b.bin'' \<mapsto> \<lparr>file_lines = [], file_size = 600\<rparr>,
         ''b.txt'' \<mapsto> \<lparr>file_lines = [\<lparr>key = ''ADCSAMPLERATE'', double_value = 4166666,
                                          long_value = 4166666\<rparr>], file_size = 22\<rparr>])
     = Inr (1, [1, 1], [0, 0], [300, 300], [NULL, NULL], Some (Inr 300)) \<and>
   register_files [(''a.bin'', ''a.txt''), (''b.bin'', ''b.txt'')] CHIMERA None
     (fresh_state 8192
        [''a.bin'' \<mapsto> \<lparr>file_lines = [], file_size = 1000\<rparr>,
         ''a.txt'' \<mapsto> \<lparr>file_lines = [\<lparr>key = ''mytimestamp'', double_value = 5,
                                          long_value = 5\<rparr>], file_size = 14\<rparr>,
         ''b.bin'' \<mapsto> \<lparr>file_lines = [], file_size = 600\<rparr>,
         ''b.txt'' \<mapsto> \<lparr>file_lines = [\<lparr>key = ''mytimestamp'', double_value = 6,
                                          long_value = 6\<rparr>], file_size = 14\<rparr>])
     = Inr (1, [1, 5], [5, 6], [500, 300], [5, NULL], Some (Inr 800))"
  by (simp add: register_run_defs get_filesize_loop.simps)


subsection \<open>The number of bins of the baseline histogram\<close>

lemma to_double_third: "to_double (1.0 / 3.0) = third"
proof -
  have a: "2 powr of_int (- 2) \<le> (1 / 3 :: real)"
    by (simp add: powr_minus)
  have b: "(1 / 3 :: real) < 2 powr (of_int (- 2) + 1)"
    by (simp add: powr_minus)
  have u: "(2 :: real) powr (of_int (- 2) - 52) = 1 / 2 ^ 54"
    by (simp add: powr_minus powr_numeral flip: powr_realpow)
  have r: "round ((1 / 3 :: real) / (1 / 2 ^ 54)) = 6004799503160661"
    by (rule round_eq) simp_all
  from to_double_binade [OF a b] show ?thesis
    by (simp only: u r third_def) simp
qed


lemma ln_20_bounds: "2 < ln (20 :: real)" "ln (20 :: real) < 4"
proof -
  have "exp (2 :: real) = exp 1 ^ 2" by (simp flip: exp_of_nat_mult)
  also have "\<dots> \<le> 3 ^ 2" by (intro power_mono exp_le) simp
  finally have "exp (2 :: real) < 20" by simp
  then have "ln (exp (2 :: real)) < ln 20" by (subst ln_less_cancel_iff) simp_all
  then show "2 < ln (20 :: real)" by simp
  have "(5 / 2 :: real) \<le> exp 1"
    using exp_lower_Taylor_quadratic [of "1 :: real"] by simp
  then have "(5 / 2 :: real) ^ 4 \<le> exp 1 ^ 4" by (intro power_mono) simp_all
  also have "\<dots> = exp (4 :: real)" by (simp flip: exp_of_nat_mult)
  finally have "(20 :: real) < exp 4" by (simp add: power_divide)
  then have "ln (20 :: real) < ln (exp 4)" by (subst ln_less_cancel_iff) simp_all
  then show "ln (20 :: real) < 4" by simp
qed

lemma cube_root_power:
  "(8000 :: real) powr third = 20 * exp (- (ln 20 / 2 ^ 54))"
proof -
  have "(8000 :: real) = 20 powr 3" by simp
  then have "(8000 :: real) powr third = 20 powr (3 * third)"
    by (simp only: powr_powr)
  also have "3 * third = 1 - 1 / 2 ^ 54" by (simp add: third_def)
  also have "(20 :: real) powr (1 - 1 / 2 ^ 54) = exp ((1 - 1 / 2 ^ 54) * ln 20)"
    by (simp add: powr_def)
  also have "(1 - 1 / 2 ^ 54) * ln (20 :: real) = ln 20 + - (ln 20 / 2 ^ 54)"
    by (simp add: left_diff_distrib)
  also have "exp (ln (20 :: real) + - (ln 20 / 2 ^ 54)) = exp (ln 20) * exp (- (ln 20 / 2 ^ 54))"
    by (rule exp_add)
  also have "exp (ln (20 :: real)) = 20" by simp
  finally show ?thesis .
qed

lemma cube_root_bounds:
  "20 - 3 / 2 / 2 ^ 48 \<le> (8000 :: real) powr third"
  "(8000 :: real) powr third < 20 - 1 / 2 / 2 ^ 48"
proof -
  define t :: real where "t = ln 20 / 2 ^ 54"
  have t: "2 / 2 ^ 54 < t" "t < 4 / 2 ^ 54"
    using ln_20_bounds by (simp_all add: t_def divide_strict_right_mono)
  have "(0 :: real) < 2 / 2 ^ 54" by simp
  with t(1) have t0: "0 < t" by linarith
  have x: "(8000 :: real) powr third = 20 * exp (- t)"
    by (simp add: cube_root_power t_def)
  have "1 - t \<le> exp (- t)" using exp_ge_add_one_self [of "- t"] by simp
  then have "20 - 20 * t \<le> 20 * exp (- t)" by simp
  moreover have "20 * t \<le> 3 / 2 / 2 ^ 48" using t(2) by simp
  ultimately show "20 - 3 / 2 / 2 ^ 48 \<le> (8000 :: real) powr third"
    unfolding x by linarith
  have "1 + t \<le> exp t" by (rule exp_ge_add_one_self)
  then have "1 / exp t \<le> 1 / (1 + t)"
    using t0 by (intro divide_left_mono) simp_all
  then have "exp (- t) \<le> 1 / (1 + t)"
    by (simp only: exp_minus inverse_eq_divide)
  moreover have "1 / (1 + t) < 1 - (1 / 2 / 2 ^ 48) / 20"
  proof -
    define k :: real where "k = (1 / 2 / 2 ^ 48) / 20"
    have k: "0 \<le> k" "5 / 4 * k = 2 / 2 ^ 54" by (simp_all add: k_def)
    have "(4 :: real) / 2 ^ 54 \<le> 1 / 4" by simp
    with t(2) have "1 + t \<le> 5 / 4" by linarith
    then have "(1 + t) * k \<le> 5 / 4 * k"
      using k(1) by (intro mult_right_mono) simp_all
    with k(2) t(1) have "(1 + t) * k < t" by linarith
    moreover have "(1 - k) * (1 + t) = 1 + t - (1 + t) * k"
      by (simp add: algebra_simps)
    ultimately have "1 < (1 - k) * (1 + t)" by linarith
    then have "1 / (1 + t) < 1 - k" using t0 by (simp add: divide_less_eq)
    then show ?thesis by (simp only: k_def)
  qed
  ultimately have "exp (- t) < 1 - (1 / 2 / 2 ^ 48) / 20" by linarith
  then show "(8000 :: real) powr third < 20 - 1 / 2 / 2 ^ 48"
    unfolding x by simp
qed


lemma pow_8000: "pow 8000 third = 20 - 1 / 2 ^ 48"
proof -
  let ?x = "(8000 :: real) powr third"
  note bd = cube_root_bounds
  have a: "2 powr of_int 4 \<le> ?x" using bd(1) by simp
  have b: "?x < 2 powr (of_int 4 + 1)" using bd(2) by simp
  have u: "(2 :: real) powr (of_int 4 - 52) = 1 / 2 ^ 48"
    by (simp add: powr_minus powr_numeral flip: powr_realpow)
  have "round (?x / (1 / 2 ^ 48)) = 20 * 2 ^ 48 - 1"
  proof (rule round_eq)
    have "(20 - 3 / 2 / 2 ^ 48) * 2 ^ 48 \<le> ?x * 2 ^ 48"
      using bd(1) by (intro mult_right_mono) simp_all
    then show "real_of_int (20 * 2 ^ 48 - 1) - 1 / 2 \<le> ?x / (1 / 2 ^ 48)" by simp
    have "?x * 2 ^ 48 < (20 - 1 / 2 / 2 ^ 48) * 2 ^ 48"
      using bd(2) by (intro mult_strict_right_mono) simp_all
    then show "?x / (1 / 2 ^ 48) < real_of_int (20 * 2 ^ 48 - 1) + 1 / 2" by simp
  qed
  with to_double_binade [OF a b] show ?thesis
    by (simp only: pow_def u) simp
qed

lemma twice_pow_8000: "to_double (2 * (20 - 1 / 2 ^ 48)) = 40 - 1 / 2 ^ 47"
proof -
  let ?y = "2 * (20 - 1 / 2 ^ 48) :: real"
  have a: "2 powr of_int 5 \<le> ?y" by simp
  have b: "?y < 2 powr (of_int 5 + 1)" by simp
  have u: "(2 :: real) powr (of_int 5 - 52) = 1 / 2 ^ 47"
    by (simp add: powr_minus powr_numeral flip: powr_realpow)
  have "round (?y / (1 / 2 ^ 47)) = 40 * 2 ^ 47 - 1"
    by (rule round_eq) simp_all
  with to_double_binade [OF a b] show ?thesis
    by (simp only: u) simp
qed

lemma numbins_8000:
  "truncate (to_double (2 * pow (to_double (of_int 8000)) (to_double (1.0 / 3.0)))) = 39"
proof -
  have c: "to_double (8000 :: real) = 8000" by (simp add: to_double_numeral)
  have v: "to_double (2 * pow (to_double (of_int 8000)) (to_double (1.0 / 3.0)))
           = 40 - 1 / 2 ^ 47"
    by (simp only: to_double_third of_int_numeral c pow_8000 twice_pow_8000)
  have f: "\<lfloor>40 - 1 / 2 ^ 47 :: real\<rfloor> = 39"
    by (simp add: floor_eq_iff)
  have "(0 :: real) \<le> 40 - 1 / 2 ^ 47" by simp
  then have "truncate (40 - 1 / 2 ^ 47 :: real) = 39"
    unfolding truncate_def using f by (simp only: if_True)
  then show ?thesis by (simp only: v)
qed


text \<open>
  C6 does not hold of the code. For \<^verbatim>\<open>readlength = 8000\<close> the claim gives 40 bins,
  and \<^verbatim>\<open>initialize_baseline\<close> makes 39. The exponent \<^verbatim>\<open>1.0/3.0\<close> is the
  \<^verbatim>\<open>double\<close> below one third, the exact power lies 0.94 units in the last place
  below 20, so \<^verbatim>\<open>pow\<close> returns the \<^verbatim>\<open>double\<close> next below 20, twice that is
  below 40, and the conversion to \<^verbatim>\<open>int64_t\<close> discards the fraction.
\<close>

theorem initialize_baseline_numbins_8000:
  "baseline_numbins
     \<lparr>readlength = 8000, data_order = 4, event_order = 4, baseline_min = 0,
      baseline_max = 1, cfg_datatype = BINARY\<rparr> (fresh_state 8192 Map.empty)
     = Inr (1, 39)"
proof -
  let ?c = "\<lparr>readlength = 8000, data_order = 4, event_order = 4, baseline_min = 0,
      baseline_max = 1, cfg_datatype = BINARY\<rparr>"
  have r: "readlength ?c = 8000" by simp
  have nb: "truncate (to_double (2 * pow (to_double (of_int (readlength ?c)))
               (to_double (1.0 / 3.0)))) = 39"
    by (simp only: r numbins_8000)
  show ?thesis
    unfolding baseline_numbins_def initialize_baseline_def Let_def nb
    by (simp add: calloc_and_check_def calloc_def new_block_def baseline_store_def
        fatal_def access_def fresh_state_def sizeof_baseline_struct_def sizeof_double_def
        free_def del: fill_current.simps)
qed


end
